theory Spec2Isabelle
  imports Main "HOL-Library.Word"
begin

unbundle bit_operations_syntax

section \<open>The value buffer and its cursor\<close>

text \<open>
  \<^verbatim>\<open>postgres-result.cpp\<close> decodes the binary value of a column through a cursor
  \<^verbatim>\<open>char **buf\<close>: every \<^verbatim>\<open>read<T>(buf)\<close> loads \<^verbatim>\<open>sizeof(T)\<close> bytes at \<^verbatim>\<open>*buf\<close> and moves
  \<^verbatim>\<open>*buf\<close> forward by as many. The model passes the bytes from the cursor to the end of
  the value and returns the decoded value with the bytes left after it. The source
  checks no length; a load past the end of the value is undefined behaviour there and
  the result \<open>Inl OutOfBounds\<close> here.
\<close>

type_synonym byte = "8 word"
type_synonym buffer = "byte list"

datatype error =
    OutOfBounds               \<comment> \<open>a load past the end of the value buffer\<close>
  | InvalidBool               \<comment> \<open>a \<^verbatim>\<open>bool\<close> loaded from a byte that is neither 0 nor 1\<close>
  | NullPointer               \<comment> \<open>a load through the null pointer \<^verbatim>\<open>PQgetvalue\<close> returned\<close>
  | AssertFailed string       \<comment> \<open>\<^verbatim>\<open>assert(e)\<close> failed: the process aborts; the text is \<^verbatim>\<open>e\<close>\<close>
  | UnexpectedType string     \<comment> \<open>\<^verbatim>\<open>assert_oid\<close>: the message on \<^verbatim>\<open>std::cerr\<close>, then \<^verbatim>\<open>assert(false)\<close>\<close>
  | LengthError               \<comment> \<open>\<^verbatim>\<open>std::length_error\<close> of \<^verbatim>\<open>std::vector::reserve\<close>\<close>
  | ExecutionException string \<comment> \<open>\<^verbatim>\<open>throw ExecutionException(conn_.lastError())\<close>\<close>

type_synonym 'a reader = "buffer \<Rightarrow> error + ('a \<times> buffer)"

text \<open>
  \<^verbatim>\<open>be16toh\<close>, \<^verbatim>\<open>be32toh\<close> and \<^verbatim>\<open>be64toh\<close> applied to the integer loaded at the cursor give, on
  every host, the integer whose most significant byte is the first byte in memory.
\<close>

definition be16 :: "byte \<Rightarrow> byte \<Rightarrow> 16 word" where
  "be16 b0 b1 = push_bit 8 (ucast b0) OR ucast b1"

definition be32 :: "byte \<Rightarrow> byte \<Rightarrow> byte \<Rightarrow> byte \<Rightarrow> 32 word" where
  "be32 b0 b1 b2 b3 =
     push_bit 24 (ucast b0) OR push_bit 16 (ucast b1) OR push_bit 8 (ucast b2) OR ucast b3"

definition be64 ::
  "byte \<Rightarrow> byte \<Rightarrow> byte \<Rightarrow> byte \<Rightarrow> byte \<Rightarrow> byte \<Rightarrow> byte \<Rightarrow> byte \<Rightarrow> 64 word" where
  "be64 b0 b1 b2 b3 b4 b5 b6 b7 =
     push_bit 56 (ucast b0) OR push_bit 48 (ucast b1) OR push_bit 40 (ucast b2) OR
     push_bit 32 (ucast b3) OR push_bit 24 (ucast b4) OR push_bit 16 (ucast b5) OR
     push_bit 8 (ucast b6) OR ucast b7"

subsection \<open>\<^verbatim>\<open>read<T>(char **buf)\<close>: the fixed-width scalars\<close>

text \<open>
  \<^verbatim>\<open>read<bool>\<close> loads one byte as a \<^verbatim>\<open>bool\<close> object. A \<^verbatim>\<open>bool\<close> whose byte is neither 0 nor 1
  has no defined value in C++.
\<close>

definition read_bool :: "bool reader" where
  "read_bool buf =
     (case buf of
        [] \<Rightarrow> Inl OutOfBounds
      | b # rest \<Rightarrow>
          if b = 0 then Inr (False, rest)
          else if b = 1 then Inr (True, rest)
          else Inl InvalidBool)"

definition read_int16 :: "16 word reader" where
  "read_int16 buf =
     (case buf of
        b0 # b1 # rest \<Rightarrow> Inr (be16 b0 b1, rest)
      | _ \<Rightarrow> Inl OutOfBounds)"

definition read_int32 :: "32 word reader" where
  "read_int32 buf =
     (case buf of
        b0 # b1 # b2 # b3 # rest \<Rightarrow> Inr (be32 b0 b1 b2 b3, rest)
      | _ \<Rightarrow> Inl OutOfBounds)"

definition read_int64 :: "64 word reader" where
  "read_int64 buf =
     (case buf of
        b0 # b1 # b2 # b3 # b4 # b5 # b6 # b7 # rest \<Rightarrow>
          Inr (be64 b0 b1 b2 b3 b4 b5 b6 b7, rest)
      | _ \<Rightarrow> Inl OutOfBounds)"

text \<open>
  \<^verbatim>\<open>float\<close> and \<^verbatim>\<open>double\<close> are carried as their bit patterns: \<^verbatim>\<open>read<float>\<close> reads an
  \<^verbatim>\<open>int32_t\<close> and returns \<^verbatim>\<open>*reinterpret_cast<float*>(&v)\<close>, the same 32 bits seen as a
  \<^verbatim>\<open>float\<close>.
\<close>

datatype cfloat = FloatBits (float_bits: "32 word")
datatype cdouble = DoubleBits (double_bits: "64 word")

definition read_float :: "cfloat reader" where
  "read_float buf =
     (case read_int32 buf of
        Inl e \<Rightarrow> Inl e
      | Inr (v, rest) \<Rightarrow> Inr (FloatBits v, rest))"

definition read_double :: "cdouble reader" where
  "read_double buf =
     (case read_int64 buf of
        Inl e \<Rightarrow> Inl e
      | Inr (v, rest) \<Rightarrow> Inr (DoubleBits v, rest))"

subsection \<open>\<^verbatim>\<open>read<T>(char **buf)\<close>: the temporal types\<close>

text \<open>
  Modelled from the spec: the records \<^verbatim>\<open>date_t\<close>, \<^verbatim>\<open>timestamp_t\<close>, \<^verbatim>\<open>timestamptz_t\<close>,
  \<^verbatim>\<open>timetz_t\<close>, \<^verbatim>\<open>time_t\<close> and \<^verbatim>\<open>interval_t\<close>, whose header is not among the sources, with
  their fields in the order the spec lists them (date: seconds since the Unix epoch;
  time: microseconds; time with zone: time and zone offset; timestamps: microseconds
  since the Unix epoch; interval: microseconds, days, months). The readers fill them by
  list-initialisation, whose initialisers C++ evaluates from left to right.

  The macros \<^verbatim>\<open>DAYS_UNIX_TO_J2000_EPOCH\<close> and \<^verbatim>\<open>MICROSEC_UNIX_TO_J2000_EPOCH\<close> are in that
  header too: the two offsets are parameters of the readers that use them, of the width
  of the integer they are added to.
\<close>

record date_t =
  epoch_date :: "32 word"

record timestamp_t =
  ts_epoch_time :: "64 word"

record timestamptz_t =
  tstz_epoch_time :: "64 word"

record timetz_t =
  tz_time :: "64 word"
  tz_timezone :: "32 word"

record time_t =
  t_time :: "64 word"

record interval_t =
  iv_time :: "64 word"
  iv_days :: "32 word"
  iv_months :: "32 word"

definition read_date :: "32 word \<Rightarrow> date_t reader" where
  "read_date DAYS_UNIX_TO_J2000_EPOCH buf =
     (case read_int32 buf of
        Inl e \<Rightarrow> Inl e
      | Inr (d, rest) \<Rightarrow>
          Inr (\<lparr>epoch_date = (d + DAYS_UNIX_TO_J2000_EPOCH) * 86400\<rparr>, rest))"

definition read_timestamp :: "64 word \<Rightarrow> timestamp_t reader" where
  "read_timestamp MICROSEC_UNIX_TO_J2000_EPOCH buf =
     (case read_int64 buf of
        Inl e \<Rightarrow> Inl e
      | Inr (t, rest) \<Rightarrow>
          Inr (\<lparr>ts_epoch_time = t + MICROSEC_UNIX_TO_J2000_EPOCH\<rparr>, rest))"

definition read_timestamptz :: "64 word \<Rightarrow> timestamptz_t reader" where
  "read_timestamptz MICROSEC_UNIX_TO_J2000_EPOCH buf =
     (case read_int64 buf of
        Inl e \<Rightarrow> Inl e
      | Inr (t, rest) \<Rightarrow>
          Inr (\<lparr>tstz_epoch_time = t + MICROSEC_UNIX_TO_J2000_EPOCH\<rparr>, rest))"

definition read_timetz :: "timetz_t reader" where
  "read_timetz buf =
     (case read_int64 buf of
        Inl e \<Rightarrow> Inl e
      | Inr (t, rest) \<Rightarrow>
          (case read_int32 rest of
             Inl e \<Rightarrow> Inl e
           | Inr (z, rest') \<Rightarrow> Inr (\<lparr>tz_time = t, tz_timezone = z\<rparr>, rest')))"

definition read_time :: "time_t reader" where
  "read_time buf =
     (case read_int64 buf of
        Inl e \<Rightarrow> Inl e
      | Inr (t, rest) \<Rightarrow> Inr (\<lparr>t_time = t\<rparr>, rest))"

definition read_interval :: "interval_t reader" where
  "read_interval buf =
     (case read_int64 buf of
        Inl e \<Rightarrow> Inl e
      | Inr (t, rest) \<Rightarrow>
          (case read_int32 rest of
             Inl e \<Rightarrow> Inl e
           | Inr (d, rest') \<Rightarrow>
               (case read_int32 rest' of
                  Inl e \<Rightarrow> Inl e
                | Inr (m, rest'') \<Rightarrow>
                    Inr (\<lparr>iv_time = t, iv_days = d, iv_months = m\<rparr>, rest''))))"

subsection \<open>The wire encoding of the scalars\<close>

text \<open>
  The server's side of the binary format, byte for byte: a boolean is one byte, 0 or 1;
  an integer of 2, 4 or 8 bytes is sent most significant byte first; a \<^verbatim>\<open>float4\<close> or
  \<^verbatim>\<open>float8\<close> is sent as the integer with the same bits. These functions are not in the
  source: they state what the readers are decoding.
\<close>

definition wire_bool :: "bool \<Rightarrow> buffer" where
  "wire_bool b = [if b then 1 else 0]"

definition wire_int16 :: "16 word \<Rightarrow> buffer" where
  "wire_int16 v = [ucast (drop_bit 8 v), ucast v]"

definition wire_int32 :: "32 word \<Rightarrow> buffer" where
  "wire_int32 v =
     [ucast (drop_bit 24 v), ucast (drop_bit 16 v), ucast (drop_bit 8 v), ucast v]"

definition wire_int64 :: "64 word \<Rightarrow> buffer" where
  "wire_int64 v =
     [ucast (drop_bit 56 v), ucast (drop_bit 48 v), ucast (drop_bit 40 v),
      ucast (drop_bit 32 v), ucast (drop_bit 24 v), ucast (drop_bit 16 v),
      ucast (drop_bit 8 v), ucast v]"

definition wire_float :: "cfloat \<Rightarrow> buffer" where
  "wire_float f = wire_int32 (float_bits f)"

definition wire_double :: "cdouble \<Rightarrow> buffer" where
  "wire_double d = wire_int64 (double_bits d)"

section \<open>The results libpq hands over\<close>

text \<open>
  A \<^verbatim>\<open>PGresult\<close> is libpq's: one server message with its status, the type tag (oid) of
  each column and the tuples it carries, every field either SQL NULL (\<open>None\<close>) or its
  binary value. The functions below are the calls of libpq the source makes, with the
  results libpq documents for a null result and for a tuple or column out of range.
\<close>

datatype ExecStatusType =
    PGRES_EMPTY_QUERY
  | PGRES_COMMAND_OK
  | PGRES_TUPLES_OK
  | PGRES_COPY_OUT
  | PGRES_COPY_IN
  | PGRES_BAD_RESPONSE
  | PGRES_NONFATAL_ERROR
  | PGRES_FATAL_ERROR
  | PGRES_COPY_BOTH
  | PGRES_SINGLE_TUPLE

record PGresult =
  resultStatus :: ExecStatusType
  attTypes :: "int list"
  tuples :: "buffer option list list"
  resultErrorMessage :: string

definition PQresultStatus :: "PGresult option \<Rightarrow> ExecStatusType" where
  "PQresultStatus res =
     (case res of None \<Rightarrow> PGRES_FATAL_ERROR | Some r \<Rightarrow> resultStatus r)"

definition PQntuples :: "PGresult option \<Rightarrow> int" where
  "PQntuples res = (case res of None \<Rightarrow> 0 | Some r \<Rightarrow> int (length (tuples r)))"

definition PQftype :: "PGresult option \<Rightarrow> int \<Rightarrow> int" where
  "PQftype res column =
     (case res of
        None \<Rightarrow> 0
      | Some r \<Rightarrow>
          if 0 \<le> column \<and> nat column < length (attTypes r) then attTypes r ! nat column
          else 0)"

text \<open>The field of tuple 0 in a column, when the result has both.\<close>

definition field0 :: "PGresult option \<Rightarrow> int \<Rightarrow> buffer option option" where
  "field0 res column =
     (case res of
        None \<Rightarrow> None
      | Some r \<Rightarrow>
          (case tuples r of
             [] \<Rightarrow> None
           | t # _ \<Rightarrow>
               if 0 \<le> column \<and> nat column < length (attTypes r) \<and> nat column < length t
               then Some (t ! nat column)
               else None))"

definition PQgetisnull :: "PGresult option \<Rightarrow> int \<Rightarrow> bool" where
  "PQgetisnull res column =
     (case field0 res column of
        None \<Rightarrow> True
      | Some None \<Rightarrow> True
      | Some (Some v) \<Rightarrow> False)"

definition PQgetvalue :: "PGresult option \<Rightarrow> int \<Rightarrow> buffer option" where
  "PQgetvalue res column =
     (case field0 res column of
        None \<Rightarrow> None
      | Some None \<Rightarrow> Some []
      | Some (Some v) \<Rightarrow> Some v)"

definition PQgetlength :: "PGresult option \<Rightarrow> int \<Rightarrow> int" where
  "PQgetlength res column =
     (case field0 res column of
        Some (Some v) \<Rightarrow> int (length v)
      | _ \<Rightarrow> 0)"

text \<open>The type tags of \<^verbatim>\<open>libpq/pg_type.h\<close> that the source names.\<close>

definition BOOLOID :: int where "BOOLOID = 16"
definition BYTEAOID :: int where "BYTEAOID = 17"
definition CHAROID :: int where "CHAROID = 18"
definition NAMEOID :: int where "NAMEOID = 19"
definition INT8OID :: int where "INT8OID = 20"
definition INT2OID :: int where "INT2OID = 21"
definition INT4OID :: int where "INT4OID = 23"
definition TEXTOID :: int where "TEXTOID = 25"
definition FLOAT4OID :: int where "FLOAT4OID = 700"
definition FLOAT8OID :: int where "FLOAT8OID = 701"
definition BPCHAROID :: int where "BPCHAROID = 1042"
definition VARCHAROID :: int where "VARCHAROID = 1043"
definition DATEOID :: int where "DATEOID = 1082"
definition TIMEOID :: int where "TIMEOID = 1083"
definition TIMESTAMPOID :: int where "TIMESTAMPOID = 1114"
definition TIMESTAMPTZOID :: int where "TIMESTAMPTZOID = 1184"
definition INTERVALOID :: int where "INTERVALOID = 1186"
definition TIMETZOID :: int where "TIMETZOID = 1266"

section \<open>The build\<close>

text \<open>
  What the translation unit takes from the preprocessor: whether \<^verbatim>\<open>NDEBUG\<close> is defined
  (then \<^verbatim>\<open>assert\<close> and \<^verbatim>\<open>assert_oid\<close> expand to nothing) and the two epoch offsets.
\<close>

record build =
  NDEBUG :: bool
  DAYS_UNIX_TO_J2000_EPOCH :: "32 word"
  MICROSEC_UNIX_TO_J2000_EPOCH :: "64 word"

text \<open>
  \<^verbatim>\<open>assert_oid(expected, actual)\<close>. The \<^verbatim>\<open>switch\<close> picks the C++ type to print for the tag
  \<^verbatim>\<open>expected\<close>; a tag outside it fails \<^verbatim>\<open>assert(false)\<close> before anything is printed.
\<close>

definition oid_type_name :: "int \<Rightarrow> string option" where
  "oid_type_name expected =
     (if expected = BOOLOID then Some ''std::vector<uint_8>''
      else if expected = BYTEAOID then Some ''char''
      else if expected = CHAROID then Some ''std::string''
      else if expected = NAMEOID then Some ''std::string''
      else if expected = INT8OID then Some ''int64_t''
      else if expected = INT2OID then Some ''int16_t''
      else if expected = INT4OID then Some ''int32_t''
      else if expected = TEXTOID then Some ''std::string''
      else if expected = FLOAT4OID then Some ''float''
      else if expected = FLOAT8OID then Some ''double''
      else if expected = BPCHAROID then Some ''std::string''
      else if expected = VARCHAROID then Some ''std::string''
      else if expected = DATEOID then Some ''db::postgres::date_t''
      else if expected = TIMEOID then Some ''db::postgres::time_t''
      else if expected = TIMESTAMPOID then Some ''db::postgres::timestamp_t''
      else if expected = TIMESTAMPTZOID then Some ''db::postgres::timestamptz_t''
      else if expected = INTERVALOID then Some ''db::postgres::interval_t''
      else if expected = TIMETZOID then Some ''db::postgres::timetz_t''
      else None)"

definition oid_mismatch :: "int \<Rightarrow> error" where
  "oid_mismatch expected =
     (case oid_type_name expected of
        None \<Rightarrow> AssertFailed ''false''
      | Some name \<Rightarrow>
          UnexpectedType (''Unexpected C++ type. Please use get<'' @ name @ ''>(int column)''))"

definition assert_oid :: "bool \<Rightarrow> int \<Rightarrow> int \<Rightarrow> error + unit" where
  "assert_oid ndebug expected actual =
     (if ndebug then Inr ()
      else if expected = actual then Inr ()
      else Inl (oid_mismatch expected))"

section \<open>Reading a value from a \<^verbatim>\<open>PGresult\<close>\<close>

text \<open>\<^verbatim>\<open>read<T>(const PGresult *pgresult, int column)\<close>: the cursor is dropped.\<close>

definition read_value :: "'a reader \<Rightarrow> PGresult option \<Rightarrow> int \<Rightarrow> error + 'a" where
  "read_value rd res column =
     (case PQgetvalue res column of
        None \<Rightarrow> Inl NullPointer
      | Some buf \<Rightarrow>
          (case rd buf of
             Inl e \<Rightarrow> Inl e
           | Inr (v, rest) \<Rightarrow> Inr v))"

text \<open>\<^verbatim>\<open>read<T>(const PGresult *pgresult, int oid, int column, T defVal)\<close>.\<close>

definition read_column ::
  "bool \<Rightarrow> 'a reader \<Rightarrow> PGresult option \<Rightarrow> int \<Rightarrow> int \<Rightarrow> 'a \<Rightarrow> error + 'a" where
  "read_column ndebug rd res oid column defVal =
     (if res = None \<and> \<not> ndebug then Inl (AssertFailed ''pgresult != nullptr'')
      else
        (case assert_oid ndebug (PQftype res column) oid of
           Inl e \<Rightarrow> Inl e
         | Inr u \<Rightarrow>
             if PQgetisnull res column then Inr defVal
             else read_value rd res column))"

text \<open>
  The loop of \<^verbatim>\<open>readArray\<close>: \<open>n\<close> elements to go, \<open>array\<close> what was pushed so far. An
  element is its \<^verbatim>\<open>int32_t\<close> length, then its value unless the length is -1.
\<close>

fun read_elems :: "'a reader \<Rightarrow> 'a \<Rightarrow> nat \<Rightarrow> buffer \<Rightarrow> 'a list \<Rightarrow> error + ('a list \<times> buffer)" where
  "read_elems rd defVal 0 buf array = Inr (array, buf)"
| "read_elems rd defVal (Suc n) buf array =
     (case read_int32 buf of
        Inl e \<Rightarrow> Inl e
      | Inr (elemSize, buf') \<Rightarrow>
          if elemSize = - 1 then read_elems rd defVal n buf' (array @ [defVal])
          else
            (case rd buf' of
               Inl e \<Rightarrow> Inl e
             | Inr (v, buf'') \<Rightarrow> read_elems rd defVal n buf'' (array @ [v])))"

text \<open>
  \<^verbatim>\<open>readArray\<close>. \<^verbatim>\<open>array.reserve(size)\<close> converts the \<^verbatim>\<open>int32_t\<close> to the unsigned size type:
  a negative size becomes a request beyond \<^verbatim>\<open>max_size()\<close> and throws
  \<^verbatim>\<open>std::length_error\<close>.
\<close>

definition readArray ::
  "bool \<Rightarrow> 'a reader \<Rightarrow> PGresult option \<Rightarrow> int \<Rightarrow> int \<Rightarrow> 'a \<Rightarrow> error + 'a list" where
  "readArray ndebug rd res oid column defVal =
     (if PQgetisnull res column then Inr []
      else
        (case PQgetvalue res column of
           None \<Rightarrow> Inl NullPointer
         | Some buf \<Rightarrow>
        (case read_int32 buf of
           Inl e \<Rightarrow> Inl e
         | Inr (ndim, buf1) \<Rightarrow>
        (case read_int32 buf1 of
           Inl e \<Rightarrow> Inl e
         | Inr (ign, buf2) \<Rightarrow>
        (case read_int32 buf2 of
           Inl e \<Rightarrow> Inl e
         | Inr (elemType, buf3) \<Rightarrow>
        (case assert_oid ndebug (sint elemType) oid of
           Inl e \<Rightarrow> Inl e
         | Inr u \<Rightarrow>
        if ndim \<noteq> 1 \<and> \<not> ndebug then Inl (AssertFailed ''ndim == 1'')
        else
        (case read_int32 buf3 of
           Inl e \<Rightarrow> Inl e
         | Inr (dim_size, buf4) \<Rightarrow>
        (case read_int32 buf4 of
           Inl e \<Rightarrow> Inl e
         | Inr (index, buf5) \<Rightarrow>
        if sint dim_size < 0 then Inl LengthError
        else
        (case read_elems rd defVal (nat (sint dim_size)) buf5 [] of
           Inl e \<Rightarrow> Inl e
         | Inr (array, rest) \<Rightarrow> Inr array)))))))))"

section \<open>The stream and its rows\<close>

text \<open>
  Modelled from the spec: the class \<^verbatim>\<open>Connection\<close>, declared and defined outside the
  sources, as the queue of protocol messages pending for the request in flight, \<open>None\<close>
  being the null pointer that ends them ("no more results"), and the most recent
  diagnostic text of the server, which \<^verbatim>\<open>lastError()\<close> returns. \<^verbatim>\<open>PQgetResult\<close> pulls the next
  message; an idle connection answers with the null pointer again; an error message
  leaves its text as the connection's diagnostic.
\<close>

record Connection =
  pending :: "PGresult option list"
  lastError :: string

definition PQgetResult :: "Connection \<Rightarrow> PGresult option \<times> Connection" where
  "PQgetResult c =
     (case pending c of
        [] \<Rightarrow> (None, c)
      | None # ms \<Rightarrow> (None, c\<lparr>pending := ms\<rparr>)
      | Some r # ms \<Rightarrow>
          (Some r,
           if resultStatus r = PGRES_FATAL_ERROR \<or> resultStatus r = PGRES_BAD_RESPONSE
           then c\<lparr>pending := ms, lastError := resultErrorMessage r\<rparr>
           else c\<lparr>pending := ms\<rparr>))"

text \<open>
  The members of \<^verbatim>\<open>Result\<close> the source uses (\<^verbatim>\<open>conn_\<close>, \<^verbatim>\<open>pgresult_\<close>, \<^verbatim>\<open>status_\<close>, \<^verbatim>\<open>num_\<close>). The
  row counter is the \<^verbatim>\<open>int\<close> that \<^verbatim>\<open>Row::num\<close> returns: 32 bits, and \<^verbatim>\<open>num_++\<close> wraps around
  past the largest of them. \<^verbatim>\<open>begin_\<close> and \<^verbatim>\<open>end_\<close> are two \<^verbatim>\<open>Row\<close> objects on this same
  result; an iterator is a pointer to one of them.
\<close>

record Result =
  conn :: Connection
  pgresult :: "PGresult option"
  status :: ExecStatusType
  num :: "32 word"

datatype row_ptr = begin_row | end_row

datatype iterator = Iterator (ptr: row_ptr)

text \<open>
  \<^verbatim>\<open>Result::Result(Connection &conn)\<close>. The constructor sets no row counter: \<open>n\<close> is
  whatever \<^verbatim>\<open>num_\<close> holds until \<^verbatim>\<open>first()\<close> resets it.
\<close>

definition new_Result :: "Connection \<Rightarrow> 32 word \<Rightarrow> Result" where
  "new_Result c n = \<lparr>conn = c, pgresult = None, status = PGRES_EMPTY_QUERY, num = n\<rparr>"

type_synonym 'a outcome = "(error \<times> Result) + 'a"

subsection \<open>\<^verbatim>\<open>Row\<close>: the typed accessors\<close>

text \<open>
  A \<^verbatim>\<open>Row\<close> reads tuple 0 of the result its \<^verbatim>\<open>Result\<close> holds. A \<^verbatim>\<open>std::string\<close> is the
  list of its bytes, a \<^verbatim>\<open>char\<close> one byte.
\<close>

definition isNull :: "build \<Rightarrow> Result \<Rightarrow> int \<Rightarrow> error + bool" where
  "isNull b st column =
     (if pgresult st = None \<and> \<not> NDEBUG b
      then Inl (AssertFailed ''result_.pgresult_ != nullptr'')
      else Inr (PQgetisnull (pgresult st) column))"

definition get_bool :: "build \<Rightarrow> Result \<Rightarrow> int \<Rightarrow> error + bool" where
  "get_bool b st column = read_column (NDEBUG b) read_bool (pgresult st) BOOLOID column False"

definition get_int16 :: "build \<Rightarrow> Result \<Rightarrow> int \<Rightarrow> error + 16 word" where
  "get_int16 b st column = read_column (NDEBUG b) read_int16 (pgresult st) INT2OID column 0"

definition get_int32 :: "build \<Rightarrow> Result \<Rightarrow> int \<Rightarrow> error + 32 word" where
  "get_int32 b st column = read_column (NDEBUG b) read_int32 (pgresult st) INT4OID column 0"

definition get_int64 :: "build \<Rightarrow> Result \<Rightarrow> int \<Rightarrow> error + 64 word" where
  "get_int64 b st column = read_column (NDEBUG b) read_int64 (pgresult st) INT8OID column 0"

definition get_float :: "build \<Rightarrow> Result \<Rightarrow> int \<Rightarrow> error + cfloat" where
  "get_float b st column =
     read_column (NDEBUG b) read_float (pgresult st) FLOAT4OID column (FloatBits 0)"

definition get_double :: "build \<Rightarrow> Result \<Rightarrow> int \<Rightarrow> error + cdouble" where
  "get_double b st column =
     read_column (NDEBUG b) read_double (pgresult st) FLOAT8OID column (DoubleBits 0)"

definition get_string :: "build \<Rightarrow> Result \<Rightarrow> int \<Rightarrow> error + buffer" where
  "get_string b st column =
     (if pgresult st = None \<and> \<not> NDEBUG b
      then Inl (AssertFailed ''result_.pgresult_ != nullptr'')
      else if PQgetisnull (pgresult st) column then Inr []
      else
        (case PQgetvalue (pgresult st) column of
           None \<Rightarrow> Inl NullPointer
         | Some v \<Rightarrow> Inr (take (nat (PQgetlength (pgresult st) column)) v)))"

text \<open>
  \<^verbatim>\<open>Row::get<char>\<close> returns the first byte at the value pointer. libpq ends every value
  with a zero byte, which is what that byte is when the value is empty.
\<close>

definition get_char :: "build \<Rightarrow> Result \<Rightarrow> int \<Rightarrow> error + byte" where
  "get_char b st column =
     (if pgresult st = None \<and> \<not> NDEBUG b
      then Inl (AssertFailed ''result_.pgresult_ != nullptr'')
      else if PQgetisnull (pgresult st) column then Inr 0
      else if PQgetlength (pgresult st) column \<noteq> 1 \<and> \<not> NDEBUG b
      then Inl (AssertFailed ''PQgetlength(result_, 0, column) == 1'')
      else
        (case PQgetvalue (pgresult st) column of
           None \<Rightarrow> Inl NullPointer
         | Some [] \<Rightarrow> Inr 0
         | Some (c # cs) \<Rightarrow> Inr c))"

text \<open>
  \<^verbatim>\<open>Row::get<std::vector<uint8_t>>\<close> tests no null flag: the vector is built from the value
  pointer and \<^verbatim>\<open>PQgetlength\<close>, which is 0 for a null field.
\<close>

definition get_bytea :: "build \<Rightarrow> Result \<Rightarrow> int \<Rightarrow> error + buffer" where
  "get_bytea b st column =
     (if pgresult st = None \<and> \<not> NDEBUG b
      then Inl (AssertFailed ''result_.pgresult_ != nullptr'')
      else
        (case assert_oid (NDEBUG b) (PQftype (pgresult st) column) BYTEAOID of
           Inl e \<Rightarrow> Inl e
         | Inr u \<Rightarrow>
             (case PQgetvalue (pgresult st) column of
                None \<Rightarrow> Inr []
              | Some v \<Rightarrow> Inr (take (nat (PQgetlength (pgresult st) column)) v))))"

definition get_date :: "build \<Rightarrow> Result \<Rightarrow> int \<Rightarrow> error + date_t" where
  "get_date b st column =
     read_column (NDEBUG b) (read_date (DAYS_UNIX_TO_J2000_EPOCH b)) (pgresult st) DATEOID
       column \<lparr>epoch_date = 0\<rparr>"

definition get_timestamptz :: "build \<Rightarrow> Result \<Rightarrow> int \<Rightarrow> error + timestamptz_t" where
  "get_timestamptz b st column =
     read_column (NDEBUG b) (read_timestamptz (MICROSEC_UNIX_TO_J2000_EPOCH b)) (pgresult st)
       TIMESTAMPTZOID column \<lparr>tstz_epoch_time = 0\<rparr>"

definition get_timestamp :: "build \<Rightarrow> Result \<Rightarrow> int \<Rightarrow> error + timestamp_t" where
  "get_timestamp b st column =
     read_column (NDEBUG b) (read_timestamp (MICROSEC_UNIX_TO_J2000_EPOCH b)) (pgresult st)
       TIMESTAMPOID column \<lparr>ts_epoch_time = 0\<rparr>"

definition get_timetz :: "build \<Rightarrow> Result \<Rightarrow> int \<Rightarrow> error + timetz_t" where
  "get_timetz b st column =
     read_column (NDEBUG b) read_timetz (pgresult st) TIMETZOID column
       \<lparr>tz_time = 0, tz_timezone = 0\<rparr>"

definition get_time :: "build \<Rightarrow> Result \<Rightarrow> int \<Rightarrow> error + time_t" where
  "get_time b st column =
     read_column (NDEBUG b) read_time (pgresult st) TIMEOID column \<lparr>t_time = 0\<rparr>"

definition get_interval :: "build \<Rightarrow> Result \<Rightarrow> int \<Rightarrow> error + interval_t" where
  "get_interval b st column =
     read_column (NDEBUG b) read_interval (pgresult st) INTERVALOID column
       \<lparr>iv_time = 0, iv_days = 0, iv_months = 0\<rparr>"

definition asArray_bool :: "build \<Rightarrow> Result \<Rightarrow> int \<Rightarrow> error + bool list" where
  "asArray_bool b st column =
     readArray (NDEBUG b) read_bool (pgresult st) BOOLOID column False"

definition asArray_int16 :: "build \<Rightarrow> Result \<Rightarrow> int \<Rightarrow> error + 16 word list" where
  "asArray_int16 b st column =
     readArray (NDEBUG b) read_int16 (pgresult st) INT2OID column 0"

definition asArray_int32 :: "build \<Rightarrow> Result \<Rightarrow> int \<Rightarrow> error + 32 word list" where
  "asArray_int32 b st column =
     readArray (NDEBUG b) read_int32 (pgresult st) INT4OID column 0"

text \<open>
  The specialisations of \<^verbatim>\<open>Row::get<T>\<close> as one function of the type asked for, so that
  "every supported type" is a quantifier.
\<close>

datatype cxx_type =
    T_bool | T_int16 | T_int32 | T_int64 | T_float | T_double
  | T_string | T_char | T_bytea
  | T_date | T_timestamptz | T_timestamp | T_timetz | T_time | T_interval

datatype cxx_value =
    V_bool bool | V_int16 "16 word" | V_int32 "32 word" | V_int64 "64 word"
  | V_float cfloat | V_double cdouble
  | V_string buffer | V_char byte | V_bytea buffer
  | V_date date_t | V_timestamptz timestamptz_t | V_timestamp timestamp_t
  | V_timetz timetz_t | V_time time_t | V_interval interval_t

definition Row_get :: "build \<Rightarrow> cxx_type \<Rightarrow> Result \<Rightarrow> int \<Rightarrow> error + cxx_value" where
  "Row_get b T st column =
     (case T of
        T_bool \<Rightarrow> map_sum id V_bool (get_bool b st column)
      | T_int16 \<Rightarrow> map_sum id V_int16 (get_int16 b st column)
      | T_int32 \<Rightarrow> map_sum id V_int32 (get_int32 b st column)
      | T_int64 \<Rightarrow> map_sum id V_int64 (get_int64 b st column)
      | T_float \<Rightarrow> map_sum id V_float (get_float b st column)
      | T_double \<Rightarrow> map_sum id V_double (get_double b st column)
      | T_string \<Rightarrow> map_sum id V_string (get_string b st column)
      | T_char \<Rightarrow> map_sum id V_char (get_char b st column)
      | T_bytea \<Rightarrow> map_sum id V_bytea (get_bytea b st column)
      | T_date \<Rightarrow> map_sum id V_date (get_date b st column)
      | T_timestamptz \<Rightarrow> map_sum id V_timestamptz (get_timestamptz b st column)
      | T_timestamp \<Rightarrow> map_sum id V_timestamp (get_timestamp b st column)
      | T_timetz \<Rightarrow> map_sum id V_timetz (get_timetz b st column)
      | T_time \<Rightarrow> map_sum id V_time (get_time b st column)
      | T_interval \<Rightarrow> map_sum id V_interval (get_interval b st column))"

text \<open>
  The type tag each specialisation hands to \<^verbatim>\<open>assert_oid\<close>; \<^verbatim>\<open>Row::get<std::string>\<close> and
  \<^verbatim>\<open>Row::get<char>\<close> hand it none.
\<close>

definition oid_of :: "cxx_type \<Rightarrow> int option" where
  "oid_of T =
     (case T of
        T_bool \<Rightarrow> Some BOOLOID
      | T_int16 \<Rightarrow> Some INT2OID
      | T_int32 \<Rightarrow> Some INT4OID
      | T_int64 \<Rightarrow> Some INT8OID
      | T_float \<Rightarrow> Some FLOAT4OID
      | T_double \<Rightarrow> Some FLOAT8OID
      | T_string \<Rightarrow> None
      | T_char \<Rightarrow> None
      | T_bytea \<Rightarrow> Some BYTEAOID
      | T_date \<Rightarrow> Some DATEOID
      | T_timestamptz \<Rightarrow> Some TIMESTAMPTZOID
      | T_timestamp \<Rightarrow> Some TIMESTAMPOID
      | T_timetz \<Rightarrow> Some TIMETZOID
      | T_time \<Rightarrow> Some TIMEOID
      | T_interval \<Rightarrow> Some INTERVALOID)"

text \<open>
  The default the spec documents for each type: false, zero, the empty string, the zero
  character, the empty byte vector, the temporal records with every field zero.
\<close>

definition default_of :: "cxx_type \<Rightarrow> cxx_value" where
  "default_of T =
     (case T of
        T_bool \<Rightarrow> V_bool False
      | T_int16 \<Rightarrow> V_int16 0
      | T_int32 \<Rightarrow> V_int32 0
      | T_int64 \<Rightarrow> V_int64 0
      | T_float \<Rightarrow> V_float (FloatBits 0)
      | T_double \<Rightarrow> V_double (DoubleBits 0)
      | T_string \<Rightarrow> V_string []
      | T_char \<Rightarrow> V_char 0
      | T_bytea \<Rightarrow> V_bytea []
      | T_date \<Rightarrow> V_date \<lparr>epoch_date = 0\<rparr>
      | T_timestamptz \<Rightarrow> V_timestamptz \<lparr>tstz_epoch_time = 0\<rparr>
      | T_timestamp \<Rightarrow> V_timestamp \<lparr>ts_epoch_time = 0\<rparr>
      | T_timetz \<Rightarrow> V_timetz \<lparr>tz_time = 0, tz_timezone = 0\<rparr>
      | T_time \<Rightarrow> V_time \<lparr>t_time = 0\<rparr>
      | T_interval \<Rightarrow> V_interval \<lparr>iv_time = 0, iv_days = 0, iv_months = 0\<rparr>)"

subsection \<open>\<^verbatim>\<open>Result\<close>: fetching\<close>

text \<open>
  \<^verbatim>\<open>Result::next\<close>. An outcome is the stream after a normal return, or the exception
  thrown (or the assertion that aborted) with the stream as it stood then.
\<close>

definition Result_next :: "build \<Rightarrow> Result \<Rightarrow> Result outcome" where
  "Result_next b st =
     (if pgresult st \<noteq> None \<and> status st \<noteq> PGRES_SINGLE_TUPLE \<and> \<not> NDEBUG b
      then Inl (AssertFailed ''status_ == PGRES_SINGLE_TUPLE'', st)
      else
        (case PQgetResult (conn st) of
           (res, c) \<Rightarrow>
             if res = None \<and> \<not> NDEBUG b
             then Inl (AssertFailed ''pgresult_'', st\<lparr>conn := c, pgresult := res\<rparr>)
             else
               (let st' = st\<lparr>conn := c, pgresult := res, status := PQresultStatus res\<rparr> in
                case PQresultStatus res of
                  PGRES_SINGLE_TUPLE \<Rightarrow>
                    if PQntuples res \<noteq> 1 \<and> \<not> NDEBUG b
                    then Inl (AssertFailed ''PQntuples(pgresult_) == 1'', st')
                    else Inr (st'\<lparr>num := num st' + 1\<rparr>)
                | PGRES_TUPLES_OK \<Rightarrow>
                    if PQntuples res \<noteq> 0 \<and> \<not> NDEBUG b
                    then Inl (AssertFailed ''PQntuples(pgresult_) == 0'', st')
                    else Inr st'
                | PGRES_BAD_RESPONSE \<Rightarrow> Inl (ExecutionException (lastError c), st')
                | PGRES_FATAL_ERROR \<Rightarrow> Inl (ExecutionException (lastError c), st')
                | PGRES_COMMAND_OK \<Rightarrow> Inr st'
                | _ \<Rightarrow> if NDEBUG b then Inr st' else Inl (AssertFailed ''false'', st'))))"

text \<open>\<^verbatim>\<open>Result::first\<close>.\<close>

definition Result_first :: "build \<Rightarrow> Result \<Rightarrow> Result outcome" where
  "Result_first b st =
     (if pgresult st \<noteq> None \<and> \<not> NDEBUG b
      then Inl (AssertFailed ''pgresult_ == nullptr'', st)
      else Result_next b (st\<lparr>num := 0\<rparr>))"

subsection \<open>\<^verbatim>\<open>Result\<close>: iteration\<close>

definition Result_begin :: "Result \<Rightarrow> iterator" where
  "Result_begin st = Iterator begin_row"

definition Result_end :: "Result \<Rightarrow> iterator" where
  "Result_end st =
     Iterator (if status st = PGRES_SINGLE_TUPLE then end_row else begin_row)"

text \<open>\<^verbatim>\<open>Result::iterator::operator ++\<close>, on the iterator and the stream it points into.\<close>

definition iterator_incr :: "build \<Rightarrow> iterator \<Rightarrow> Result \<Rightarrow> (iterator \<times> Result) outcome" where
  "iterator_incr b it st =
     (case Result_next b st of
        Inl e \<Rightarrow> Inl e
      | Inr st' \<Rightarrow>
          if status st' \<noteq> PGRES_SINGLE_TUPLE
          then
            if status st' \<noteq> PGRES_TUPLES_OK \<and> \<not> NDEBUG b
            then Inl (AssertFailed ''ptr_->result_.status_ == PGRES_TUPLES_OK'', st')
            else Inr (Iterator end_row, st')
          else Inr (it, st'))"

text \<open>
  Modelled from the spec: the comparison of two iterators, declared outside the
  sources; they are equal when they point to the same \<^verbatim>\<open>Row\<close>.

  The range-based \<^verbatim>\<open>for\<close> over a result: \<^verbatim>\<open>begin()\<close> and \<^verbatim>\<open>end()\<close> are taken once, the body
  runs while the iterator differs from the end, and \<^verbatim>\<open>++\<close> follows each run. \<open>seen\<close>
  collects the row numbers (\<^verbatim>\<open>Row::num\<close>) the body was run on.
\<close>

function range_loop ::
  "build \<Rightarrow> iterator \<Rightarrow> iterator \<Rightarrow> Result \<Rightarrow> 32 word list
    \<Rightarrow> 32 word list \<times> Result outcome" where
  "range_loop b it e st seen =
     (if it = e then (seen, Inr st)
      else
        (case iterator_incr b it st of
           Inl err \<Rightarrow> (seen @ [num st], Inl err)
         | Inr (it', st') \<Rightarrow> range_loop b it' e st' (seen @ [num st])))"
  by pat_completeness auto
termination
proof (relation "measure (\<lambda>(b, it, e, st, seen). length (pending (conn st)))")
  show "wf (measure (\<lambda>(b, it, e, st, seen). length (pending (conn st))))"
    by simp
next
  fix b :: build and it e :: iterator and st :: Result and seen :: "32 word list"
    and x :: "iterator \<times> Result" and it' :: iterator and st' :: Result
  assume "it \<noteq> e" and incr: "iterator_incr b it st = Inr x" and x: "(it', st') = x"
  from incr x obtain st1 where nxt: "Result_next b st = Inr st1" and c: "conn st' = conn st1"
    by (auto simp add: iterator_incr_def split: sum.splits if_splits)
  obtain res c1 where g: "PQgetResult (conn st) = (res, c1)"
    by (cases "PQgetResult (conn st)")
  from nxt g have c1: "conn st1 = c1"
    by (auto simp add: Result_next_def Let_def split: if_splits ExecStatusType.splits)
  from nxt g have "res \<noteq> None"
    by (cases res)
      (auto simp add: Result_next_def Let_def PQresultStatus_def split: if_splits)
  with g have "length (pending c1) < length (pending (conn st))"
    by (auto simp add: PQgetResult_def split: list.splits option.splits if_splits)
  with c c1 show "((b, it', e, st', seen @ [num st]), (b, it, e, st, seen))
      \<in> measure (\<lambda>(b, it, e, st, seen). length (pending (conn st)))"
    by simp
qed

declare range_loop.simps [simp del]

definition range_for :: "build \<Rightarrow> Result \<Rightarrow> 32 word list \<times> Result outcome" where
  "range_for b st = range_loop b (Result_begin st) (Result_end st) st []"

subsection \<open>\<^verbatim>\<open>Result\<close>: clearing\<close>

text \<open>
  The \<^verbatim>\<open>do ... while (status_ != PGRES_EMPTY_QUERY)\<close> of \<^verbatim>\<open>Result::clear\<close>: one turn fetches a
  message; the null pointer ends the loop, a bad response or a fatal error throws out
  of it, and any other status goes round again (a message of status
  \<^verbatim>\<open>PGRES_EMPTY_QUERY\<close> ends the loop by its condition).
\<close>

function clear_loop :: "Result \<Rightarrow> Result outcome" where
  "clear_loop st =
     (case PQgetResult (conn st) of
        (None, c) \<Rightarrow> Inr (st\<lparr>conn := c, pgresult := None, status := PGRES_EMPTY_QUERY\<rparr>)
      | (Some r, c) \<Rightarrow>
          (let st' = st\<lparr>conn := c, pgresult := Some r, status := resultStatus r\<rparr> in
           if resultStatus r = PGRES_BAD_RESPONSE \<or> resultStatus r = PGRES_FATAL_ERROR
           then Inl (ExecutionException (lastError c), st')
           else if resultStatus r = PGRES_EMPTY_QUERY then Inr st'
           else clear_loop st'))"
  by pat_completeness auto
termination
  by (relation "measure (\<lambda>st. length (pending (conn st)))")
    (auto simp add: PQgetResult_def split: list.splits option.splits if_splits)

declare clear_loop.simps [simp del]

text \<open>
  The body the labels \<^verbatim>\<open>PGRES_BAD_RESPONSE\<close>, \<^verbatim>\<open>PGRES_FATAL_ERROR\<close> and \<^verbatim>\<open>PGRES_TUPLES_OK\<close> of
  \<^verbatim>\<open>Result::clear\<close> share: one fetch, which must give the null pointer.
\<close>

definition clear_last :: "build \<Rightarrow> Result \<Rightarrow> Result outcome" where
  "clear_last b st =
     (case PQgetResult (conn st) of
        (res, c) \<Rightarrow>
          if res \<noteq> None \<and> \<not> NDEBUG b
          then Inl (AssertFailed ''pgresult_ == nullptr'', st\<lparr>conn := c, pgresult := res\<rparr>)
          else Inr (st\<lparr>conn := c, pgresult := res, status := PGRES_EMPTY_QUERY\<rparr>))"

text \<open>
  \<^verbatim>\<open>Result::clear\<close>. \<^verbatim>\<open>Connection::cancel\<close> is not among the sources: it is the parameter
  \<open>cancel\<close>, acting on the stream and its connection.
\<close>

definition Result_clear :: "build \<Rightarrow> (Result \<Rightarrow> Result) \<Rightarrow> Result \<Rightarrow> Result outcome" where
  "Result_clear b cancel st =
     (case status st of
        PGRES_COMMAND_OK \<Rightarrow> clear_loop st
      | PGRES_SINGLE_TUPLE \<Rightarrow>
          (case Result_next b st of
             Inl e \<Rightarrow> Inl e
           | Inr st1 \<Rightarrow>
               (let st2 =
                  (if status st1 = PGRES_SINGLE_TUPLE then cancel st1
                   else if status st1 = PGRES_TUPLES_OK
                   then
                     (case PQgetResult (conn st1) of
                        (res, c) \<Rightarrow>
                          st1\<lparr>conn := c, pgresult := res, status := PGRES_EMPTY_QUERY\<rparr>)
                   else st1)
                in
                  if pgresult st2 \<noteq> None \<and> \<not> NDEBUG b
                  then Inl (AssertFailed ''pgresult_ == nullptr'', st2)
                  else Inr st2))
      | PGRES_BAD_RESPONSE \<Rightarrow> clear_last b st
      | PGRES_FATAL_ERROR \<Rightarrow> clear_last b st
      | PGRES_TUPLES_OK \<Rightarrow> clear_last b st
      | PGRES_EMPTY_QUERY \<Rightarrow> Inr st
      | _ \<Rightarrow> Inr st)"

subsection \<open>The wire encoding of a one-dimensional array\<close>

text \<open>
  What the server sends for an array of one dimension: the header \<^verbatim>\<open>ndim\<close>, \<^verbatim>\<open>ign\<close>,
  \<^verbatim>\<open>elemtype\<close>, \<^verbatim>\<open>size\<close>, \<^verbatim>\<open>index\<close> as five big-endian \<^verbatim>\<open>int32_t\<close>, then each element as its
  length and its value, a null element as the length -1 alone. Not in the source: it
  states what \<^verbatim>\<open>readArray\<close> is decoding.
\<close>

datatype 'a elem = NullElem | Elem "32 word" 'a

definition wire_header :: "32 word \<Rightarrow> 32 word \<Rightarrow> 32 word \<Rightarrow> buffer" where
  "wire_header ndim ign elemType = wire_int32 ndim @ wire_int32 ign @ wire_int32 elemType"

definition wire_dim :: "32 word \<Rightarrow> 32 word \<Rightarrow> buffer" where
  "wire_dim dim_size index = wire_int32 dim_size @ wire_int32 index"

fun wire_elems :: "('a \<Rightarrow> buffer) \<Rightarrow> 'a elem list \<Rightarrow> buffer" where
  "wire_elems enc [] = []"
| "wire_elems enc (NullElem # es) = wire_int32 (- 1) @ wire_elems enc es"
| "wire_elems enc (Elem len v # es) = wire_int32 len @ enc v @ wire_elems enc es"

fun elem_value :: "'a \<Rightarrow> 'a elem \<Rightarrow> 'a" where
  "elem_value defVal NullElem = defVal"
| "elem_value defVal (Elem len v) = v"

fun elem_length_ok :: "'a elem \<Rightarrow> bool" where
  "elem_length_ok NullElem = True"
| "elem_length_ok (Elem len v) = (len \<noteq> - 1)"

definition wire_array :: "int \<Rightarrow> ('a \<Rightarrow> buffer) \<Rightarrow> 'a elem list \<Rightarrow> 32 word \<Rightarrow> 32 word \<Rightarrow> buffer" where
  "wire_array oid enc es ign index =
     wire_header 1 ign (word_of_int oid) @ wire_dim (word_of_nat (length es)) index
       @ wire_elems enc es"

subsection \<open>Error messages\<close>

definition is_error :: "PGresult \<Rightarrow> bool" where
  "is_error r \<longleftrightarrow>
     resultStatus r = PGRES_FATAL_ERROR \<or> resultStatus r = PGRES_BAD_RESPONSE"

section \<open>Sample data\<close>

text \<open>
  Two builds, with the offsets of 2000-01-01 from 1970-01-01 in days and in
  microseconds, and a few messages and streams to run the operations on.
\<close>

definition debug_build :: build where
  "debug_build =
     \<lparr>NDEBUG = False, DAYS_UNIX_TO_J2000_EPOCH = 10957,
      MICROSEC_UNIX_TO_J2000_EPOCH = 946684800000000\<rparr>"

definition release_build :: build where
  "release_build =
     \<lparr>NDEBUG = True, DAYS_UNIX_TO_J2000_EPOCH = 10957,
      MICROSEC_UNIX_TO_J2000_EPOCH = 946684800000000\<rparr>"

text \<open>
  A tuple of seven columns: an \<^verbatim>\<open>int4\<close> 42, a null \<^verbatim>\<open>text\<close>, the arrays \<^verbatim>\<open>{t,NULL}\<close> of
  \<^verbatim>\<open>bool\<close>, \<^verbatim>\<open>{NULL,7}\<close> of \<^verbatim>\<open>int2\<close> and \<^verbatim>\<open>{10,NULL,30}\<close> of \<^verbatim>\<open>int4\<close> (this one with three
  stray bytes after it), the header of a two-dimensional \<^verbatim>\<open>int4\<close> array, and a null
  \<^verbatim>\<open>int8\<close>.
\<close>

definition sample_tuple :: PGresult where
  "sample_tuple =
     \<lparr>resultStatus = PGRES_SINGLE_TUPLE,
      attTypes = [INT4OID, TEXTOID, 1000, 1005, 1007, 1007, INT8OID],
      tuples =
        [[Some [0, 0, 0, 42],
          None,
          Some (wire_array BOOLOID wire_bool [Elem 1 True, NullElem] 0 1),
          Some (wire_array INT2OID wire_int16 [NullElem, Elem 2 7] 0 1),
          Some (wire_array INT4OID wire_int32 [Elem 4 10, NullElem, Elem 4 30] 0 1
                  @ [1, 2, 3]),
          Some (wire_header 2 0 (word_of_int INT4OID) @ []),
          None]],
      resultErrorMessage = []\<rparr>"

definition end_of_rows :: PGresult where
  "end_of_rows =
     \<lparr>resultStatus = PGRES_TUPLES_OK,
      attTypes = [INT4OID, TEXTOID, 1000, 1005, 1007, 1007, INT8OID],
      tuples = [], resultErrorMessage = []\<rparr>"

definition command_ok :: PGresult where
  "command_ok =
     \<lparr>resultStatus = PGRES_COMMAND_OK, attTypes = [], tuples = [],
      resultErrorMessage = []\<rparr>"

definition fatal_error :: PGresult where
  "fatal_error =
     \<lparr>resultStatus = PGRES_FATAL_ERROR, attTypes = [], tuples = [],
      resultErrorMessage = ''ERROR:  division by zero''\<rparr>"

definition idle :: Connection where
  "idle = \<lparr>pending = [], lastError = []\<rparr>"

text \<open>The stream on the only row of a query, and the same stream after its last fetch.\<close>

definition sample_row :: Result where
  "sample_row =
     \<lparr>conn = \<lparr>pending = [Some end_of_rows, None], lastError = []\<rparr>,
      pgresult = Some sample_tuple, status = PGRES_SINGLE_TUPLE, num = 1\<rparr>"

definition exhausted :: Result where
  "exhausted =
     \<lparr>conn = \<lparr>pending = [None], lastError = []\<rparr>,
      pgresult = Some end_of_rows, status = PGRES_TUPLES_OK, num = 1\<rparr>"

text \<open>
  The stream after the first of three statements sent in one request, the second of
  which fails: the server's messages still pending are a command completion, the error,
  and the null pointer that ends the request.
\<close>

definition after_command :: Result where
  "after_command =
     \<lparr>conn = \<lparr>pending = [Some command_ok, Some fatal_error, None], lastError = []\<rparr>,
      pgresult = Some command_ok, status = PGRES_COMMAND_OK, num = 0\<rparr>"

section \<open>Big-endian reads\<close>

lemma bit_byte_at:
  fixes v :: "'a::len word"
  shows "bit (push_bit m (ucast (ucast (drop_bit m v) :: byte)) :: 'a word) n
     \<longleftrightarrow> m \<le> n \<and> n < m + 8 \<and> bit v n"
proof (cases "m \<le> n")
  case True
  then obtain k where k: "n = m + k"
    using le_Suc_ex by blast
  show ?thesis
    unfolding k by (auto simp add: bit_simps dest: bit_imp_le_length)
next
  case False
  then show ?thesis
    by (simp add: bit_simps)
qed

lemma bit_byte_low:
  fixes v :: "'a::len word"
  shows "bit (ucast (ucast v :: byte) :: 'a word) n \<longleftrightarrow> n < 8 \<and> bit v n"
  by (auto simp add: bit_simps dest: bit_imp_le_length)

lemma be16_bytes:
  "be16 (ucast (drop_bit 8 v)) (ucast v) = v"
proof (rule bit_word_eqI)
  fix n :: nat
  assume "n < LENGTH(16)"
  then have n: "n < 16"
    by simp
  have "bit (be16 (ucast (drop_bit 8 v)) (ucast v)) n
      \<longleftrightarrow> (8 \<le> n \<and> n < 8 + 8 \<or> n < 8) \<and> bit v n"
    unfolding be16_def bit_or_iff bit_byte_at bit_byte_low by blast
  also have "\<dots> \<longleftrightarrow> bit v n"
    using n by auto
  finally show "bit (be16 (ucast (drop_bit 8 v)) (ucast v)) n = bit v n" .
qed

lemma be32_bytes:
  "be32 (ucast (drop_bit 24 v)) (ucast (drop_bit 16 v)) (ucast (drop_bit 8 v)) (ucast v) = v"
  (is "?w = v")
proof (rule bit_word_eqI)
  fix n :: nat
  assume "n < LENGTH(32)"
  then have n: "n < 32"
    by simp
  have "bit ?w n
      \<longleftrightarrow> (24 \<le> n \<and> n < 24 + 8 \<or> 16 \<le> n \<and> n < 16 + 8 \<or> 8 \<le> n \<and> n < 8 + 8 \<or> n < 8)
          \<and> bit v n"
    unfolding be32_def bit_or_iff bit_byte_at bit_byte_low by blast
  also have "\<dots> \<longleftrightarrow> bit v n"
    using n by auto
  finally show "bit ?w n = bit v n" .
qed

lemma be64_bytes:
  "be64 (ucast (drop_bit 56 v)) (ucast (drop_bit 48 v)) (ucast (drop_bit 40 v))
        (ucast (drop_bit 32 v)) (ucast (drop_bit 24 v)) (ucast (drop_bit 16 v))
        (ucast (drop_bit 8 v)) (ucast v) = v"
  (is "?w = v")
proof (rule bit_word_eqI)
  fix n :: nat
  assume "n < LENGTH(64)"
  then have n: "n < 64"
    by simp
  have "bit ?w n
      \<longleftrightarrow> (56 \<le> n \<and> n < 56 + 8 \<or> 48 \<le> n \<and> n < 48 + 8 \<or> 40 \<le> n \<and> n < 40 + 8 \<or>
           32 \<le> n \<and> n < 32 + 8 \<or> 24 \<le> n \<and> n < 24 + 8 \<or> 16 \<le> n \<and> n < 16 + 8 \<or>
           8 \<le> n \<and> n < 8 + 8 \<or> n < 8)
          \<and> bit v n"
    unfolding be64_def bit_or_iff bit_byte_at bit_byte_low by blast
  also have "\<dots> \<longleftrightarrow> bit v n"
    using n by auto
  finally show "bit ?w n = bit v n" .
qed

lemma read_int16_wire: "read_int16 (wire_int16 v @ rest) = Inr (v, rest)"
  by (simp add: read_int16_def wire_int16_def be16_bytes)

lemma read_int32_wire: "read_int32 (wire_int32 v @ rest) = Inr (v, rest)"
  by (simp add: read_int32_def wire_int32_def be32_bytes)

lemma read_int64_wire: "read_int64 (wire_int64 v @ rest) = Inr (v, rest)"
  by (simp add: read_int64_def wire_int64_def be64_bytes)

lemma read_bool_wire: "read_bool (wire_bool b @ rest) = Inr (b, rest)"
  by (simp add: read_bool_def wire_bool_def)

lemma read_float_wire: "read_float (wire_float f @ rest) = Inr (f, rest)"
  by (simp add: read_float_def wire_float_def read_int32_wire)

lemma read_double_wire: "read_double (wire_double d @ rest) = Inr (d, rest)"
  by (simp add: read_double_def wire_double_def read_int64_wire)

text \<open>
  C5. Each fixed-width scalar reader inverts the wire encoding: it returns the value
  that was encoded, and the cursor it leaves is the buffer after the \<^verbatim>\<open>sizeof(T)\<close>
  bytes of the encoding (1 for \<^verbatim>\<open>bool\<close>, 2, 4 and 8 for the integers, 4 for \<^verbatim>\<open>float\<close>, 8 for
  \<^verbatim>\<open>double\<close>), whatever follows them. The floating types come back as the bit pattern
  that was sent.
\<close>

theorem scalar_read_roundtrip:
  "read_bool (wire_bool b @ rest) = Inr (b, rest) \<and> length (wire_bool b) = 1 \<and>
   read_int16 (wire_int16 v16 @ rest) = Inr (v16, rest) \<and> length (wire_int16 v16) = 2 \<and>
   read_int32 (wire_int32 v32 @ rest) = Inr (v32, rest) \<and> length (wire_int32 v32) = 4 \<and>
   read_int64 (wire_int64 v64 @ rest) = Inr (v64, rest) \<and> length (wire_int64 v64) = 8 \<and>
   read_float (wire_float f @ rest) = Inr (f, rest) \<and> length (wire_float f) = 4 \<and>
   read_double (wire_double d @ rest) = Inr (d, rest) \<and> length (wire_double d) = 8"
  by (simp add: read_bool_wire read_int16_wire read_int32_wire read_int64_wire
      read_float_wire read_double_wire)
    (simp add: wire_bool_def wire_int16_def wire_int32_def wire_int64_def
      wire_float_def wire_double_def)








section \<open>The sample tuple\<close>

lemmas oid_defs = BOOLOID_def BYTEAOID_def CHAROID_def NAMEOID_def INT8OID_def INT2OID_def
  INT4OID_def TEXTOID_def FLOAT4OID_def FLOAT8OID_def BPCHAROID_def VARCHAROID_def
  DATEOID_def TIMEOID_def TIMESTAMPOID_def TIMESTAMPTZOID_def INTERVALOID_def TIMETZOID_def

lemma field0_sample:
  "field0 (pgresult sample_row) 0 = Some (Some [0, 0, 0, 42])"
  "field0 (pgresult sample_row) 1 = Some None"
  "field0 (pgresult sample_row) 2
     = Some (Some (wire_array BOOLOID wire_bool [Elem 1 True, NullElem] 0 1))"
  "field0 (pgresult sample_row) 3
     = Some (Some (wire_array INT2OID wire_int16 [NullElem, Elem 2 7] 0 1))"
  "field0 (pgresult sample_row) 4
     = Some (Some (wire_array INT4OID wire_int32 [Elem 4 10, NullElem, Elem 4 30] 0 1
          @ [1, 2, 3]))"
  "field0 (pgresult sample_row) 5 = Some (Some (wire_header 2 0 (word_of_int INT4OID) @ []))"
  "field0 (pgresult sample_row) 6 = Some None"
  by (simp_all add: field0_def sample_row_def sample_tuple_def)

lemma PQftype_sample:
  "PQftype (pgresult sample_row) 0 = INT4OID"
  "PQftype (pgresult sample_row) 1 = TEXTOID"
  "PQftype (pgresult sample_row) 6 = INT8OID"
  by (simp_all add: PQftype_def sample_row_def sample_tuple_def)

lemma pgresult_sample: "pgresult sample_row = Some sample_tuple"
  by (simp add: sample_row_def)

lemma NDEBUG_sample: "\<not> NDEBUG debug_build" "NDEBUG release_build"
  by (simp_all add: debug_build_def release_build_def)

section \<open>Arrays\<close>

lemma read_elems_wire:
  assumes rd: "\<And>v rest. rd (enc v @ rest) = Inr (v, rest)"
    and ok: "list_all elem_length_ok es"
  shows "read_elems rd defVal (length es) (wire_elems enc es @ rest) array
    = Inr (array @ map (elem_value defVal) es, rest)"
  using ok
proof (induction es arbitrary: array)
  case Nil
  then show ?case
    by simp
next
  case (Cons e es)
  then show ?case
    by (cases e) (simp_all add: read_int32_wire rd)
qed

lemma sint_count: "n < 2 ^ 31 \<Longrightarrow> sint (word_of_nat n :: 32 word) = int n"
  by (simp add: signed_of_nat signed_take_bit_int_eq_self)

lemma PQgetisnull_field0: "field0 res column = Some (Some v) \<Longrightarrow> \<not> PQgetisnull res column"
  by (simp add: PQgetisnull_def)

lemma PQgetvalue_field0:
  "field0 res column = Some (Some v) \<Longrightarrow> PQgetvalue res column = Some v"
  by (simp add: PQgetvalue_def)

lemma PQgetlength_field0:
  "field0 res column = Some (Some v) \<Longrightarrow> PQgetlength res column = int (length v)"
  by (simp add: PQgetlength_def)

text \<open>\<^verbatim>\<open>readArray\<close> once the three words of the header are read.\<close>

lemma readArray_header:
  assumes "field0 res column = Some (Some (wire_header ndim ign elemType @ rest))"
  shows "readArray ndebug rd res oid column defVal =
     (case assert_oid ndebug (sint elemType) oid of
        Inl e \<Rightarrow> Inl e
      | Inr u \<Rightarrow>
        if ndim \<noteq> 1 \<and> \<not> ndebug then Inl (AssertFailed ''ndim == 1'')
        else
        (case read_int32 rest of
           Inl e \<Rightarrow> Inl e
         | Inr (dim_size, buf4) \<Rightarrow>
        (case read_int32 buf4 of
           Inl e \<Rightarrow> Inl e
         | Inr (index, buf5) \<Rightarrow>
        if sint dim_size < 0 then Inl LengthError
        else
        (case read_elems rd defVal (nat (sint dim_size)) buf5 [] of
           Inl e \<Rightarrow> Inl e
         | Inr (array, rest) \<Rightarrow> Inr array))))"
  using assms
  by (simp add: readArray_def PQgetisnull_field0 PQgetvalue_field0 wire_header_def
      read_int32_wire)

lemma readArray_wire:
  assumes rd: "\<And>v rest. rd (enc v @ rest) = Inr (v, rest)"
    and ok: "list_all elem_length_ok es"
    and len: "length es < 2 ^ 31"
    and val: "field0 res column = Some (Some (wire_array tag enc es ign index @ trailing))"
    and tag: "sint (word_of_int tag :: 32 word) = oid"
  shows "readArray ndebug rd res oid column defVal = Inr (map (elem_value defVal) es)"
proof -
  from val have header: "field0 res column = Some (Some (wire_header 1 ign (word_of_int tag)
      @ (wire_dim (word_of_nat (length es)) index @ wire_elems enc es @ trailing)))"
    by (simp add: wire_array_def)
  show ?thesis
    by (simp add: readArray_header [OF header] tag assert_oid_def wire_dim_def
        read_int32_wire sint_count [OF len] read_elems_wire [OF rd ok])
qed

lemma readArray_ndim:
  assumes "\<not> ndebug"
    and "field0 res column = Some (Some (wire_header ndim ign elemType @ rest))"
    and "ndim \<noteq> 1"
  shows "readArray ndebug rd res oid column defVal =
     Inl (if sint elemType = oid then AssertFailed ''ndim == 1''
          else oid_mismatch (sint elemType))"
  using assms(1,3) by (simp add: readArray_header [OF assms(2)] assert_oid_def)

lemma readArray_mismatch:
  assumes "\<not> ndebug"
    and "field0 res column = Some (Some (wire_header ndim ign elemType @ rest))"
    and "sint elemType \<noteq> oid"
  shows "readArray ndebug rd res oid column defVal = Inl (oid_mismatch (sint elemType))"
  using assms(1,3) by (simp add: readArray_header [OF assms(2)] assert_oid_def)

text \<open>
  C6. A non-null column holds the wire form of a one-dimensional array whose header
  declares as many elements as follow (fewer than \<open>2 ^ 31\<close>, so that the count is a
  non-negative \<^verbatim>\<open>int32\<close>), with the element type tag of the accessor, every element
  either null (length -1) or a value under a length other than -1, and any bytes
  \<open>trailing\<close> after the last element. Then \<^verbatim>\<open>asArray<bool>\<close>, \<^verbatim>\<open>asArray<int16_t>\<close> and
  \<^verbatim>\<open>asArray<int32_t>\<close> return one entry per element, in order: the default (\<open>False\<close>, 0)
  for a null element and the decoded value for every other one; and the loop over the
  elements stops with its cursor on the first trailing byte, so nothing after the
  declared elements is read.
\<close>

theorem asArray_elements:
  fixes bs :: "bool elem list" and ss :: "16 word elem list" and ws :: "32 word elem list"
  shows
  "(list_all elem_length_ok bs \<and> length bs < 2 ^ 31 \<and>
    field0 (pgresult st) column
      = Some (Some (wire_array BOOLOID wire_bool bs ign index @ trailing))
    \<longrightarrow> asArray_bool b st column = Inr (map (elem_value False) bs) \<and>
        read_elems read_bool False (length bs) (wire_elems wire_bool bs @ trailing) []
          = Inr (map (elem_value False) bs, trailing)) \<and>
   (list_all elem_length_ok ss \<and> length ss < 2 ^ 31 \<and>
    field0 (pgresult st) column
      = Some (Some (wire_array INT2OID wire_int16 ss ign index @ trailing))
    \<longrightarrow> asArray_int16 b st column = Inr (map (elem_value 0) ss) \<and>
        read_elems read_int16 0 (length ss) (wire_elems wire_int16 ss @ trailing) []
          = Inr (map (elem_value 0) ss, trailing)) \<and>
   (list_all elem_length_ok ws \<and> length ws < 2 ^ 31 \<and>
    field0 (pgresult st) column
      = Some (Some (wire_array INT4OID wire_int32 ws ign index @ trailing))
    \<longrightarrow> asArray_int32 b st column = Inr (map (elem_value 0) ws) \<and>
        read_elems read_int32 0 (length ws) (wire_elems wire_int32 ws @ trailing) []
          = Inr (map (elem_value 0) ws, trailing))"
proof (intro conjI impI; elim conjE)
  assume "list_all elem_length_ok bs" "length bs < 2 ^ 31"
    "field0 (pgresult st) column
      = Some (Some (wire_array BOOLOID wire_bool bs ign index @ trailing))"
  then show "asArray_bool b st column = Inr (map (elem_value False) bs)"
    unfolding asArray_bool_def
    by (rule readArray_wire [OF read_bool_wire]) (simp add: BOOLOID_def)
next
  assume "list_all elem_length_ok ss" "length ss < 2 ^ 31"
    "field0 (pgresult st) column
      = Some (Some (wire_array INT2OID wire_int16 ss ign index @ trailing))"
  then show "asArray_int16 b st column = Inr (map (elem_value 0) ss)"
    unfolding asArray_int16_def
    by (rule readArray_wire [OF read_int16_wire]) (simp add: INT2OID_def)
next
  assume "list_all elem_length_ok ws" "length ws < 2 ^ 31"
    "field0 (pgresult st) column
      = Some (Some (wire_array INT4OID wire_int32 ws ign index @ trailing))"
  then show "asArray_int32 b st column = Inr (map (elem_value 0) ws)"
    unfolding asArray_int32_def
    by (rule readArray_wire [OF read_int32_wire]) (simp add: INT4OID_def)
qed (simp_all add: read_elems_wire [OF read_bool_wire] read_elems_wire [OF read_int16_wire]
    read_elems_wire [OF read_int32_wire])

theorem asArray_elements_witness:
  "asArray_bool debug_build sample_row 2 = Inr [True, False] \<and>
   asArray_int16 debug_build sample_row 3 = Inr [0, 7] \<and>
   asArray_int32 debug_build sample_row 4 = Inr [10, 0, 30] \<and>
   read_elems read_int32 0 (length [Elem 4 10, NullElem, Elem 4 (30 :: 32 word)])
       (wire_elems wire_int32 [Elem 4 10, NullElem, Elem 4 30] @ [1, 2, 3]) []
     = Inr ([10, 0, 30], [1, 2, 3])"
  using
    asArray_elements [where b = debug_build and st = sample_row and column = 2
      and bs = "[Elem 1 True, NullElem]" and ign = 0 and index = 1 and trailing = "[]",
      THEN conjunct1]
    asArray_elements [where b = debug_build and st = sample_row and column = 3
      and ss = "[NullElem, Elem 2 7]" and ign = 0 and index = 1 and trailing = "[]",
      THEN conjunct2, THEN conjunct1]
    asArray_elements [where b = debug_build and st = sample_row and column = 4
      and ws = "[Elem 4 10, NullElem, Elem 4 30]" and ign = 0 and index = 1
      and trailing = "[1, 2, 3]", THEN conjunct2, THEN conjunct2]
  by (simp add: field0_sample)

text \<open>
  C8. In the default build (\<^verbatim>\<open>NDEBUG\<close> not defined), \<^verbatim>\<open>readArray\<close> on a non-null column
  whose header has \<^verbatim>\<open>ndim\<close> other than 1 never returns a vector: it stops on a failed
  assertion before it reads the size. The assertion is \<^verbatim>\<open>assert(ndim == 1)\<close> when the
  element type tag of the header is the one asked for; \<^verbatim>\<open>assert_oid\<close>, which comes first,
  reports the tag otherwise. So do the three \<^verbatim>\<open>asArray\<close> accessors.
\<close>

theorem ndim_validated:
  assumes "\<not> NDEBUG b"
    and "field0 (pgresult st) column = Some (Some (wire_header ndim ign elemType @ rest))"
    and "ndim \<noteq> 1"
  shows
    "readArray (NDEBUG b) rd (pgresult st) oid column defVal
       = Inl (if sint elemType = oid then AssertFailed ''ndim == 1''
              else oid_mismatch (sint elemType)) \<and>
     asArray_bool b st column
       = Inl (if sint elemType = BOOLOID then AssertFailed ''ndim == 1''
              else oid_mismatch (sint elemType)) \<and>
     asArray_int16 b st column
       = Inl (if sint elemType = INT2OID then AssertFailed ''ndim == 1''
              else oid_mismatch (sint elemType)) \<and>
     asArray_int32 b st column
       = Inl (if sint elemType = INT4OID then AssertFailed ''ndim == 1''
              else oid_mismatch (sint elemType))"
  unfolding asArray_bool_def asArray_int16_def asArray_int32_def
  by (intro conjI readArray_ndim [OF assms])

theorem ndim_validated_witness:
  "asArray_int32 debug_build sample_row 5 = Inl (AssertFailed ''ndim == 1'') \<and>
   asArray_int16 debug_build sample_row 5
     = Inl (UnexpectedType ''Unexpected C++ type. Please use get<int32_t>(int column)'')"
  using ndim_validated [where b = debug_build and st = sample_row and column = 5
      and ndim = 2 and ign = 0 and elemType = "word_of_int INT4OID" and rest = "[]"
      and rd = read_int32 and oid = INT4OID and defVal = 0]
  by (simp add: field0_sample NDEBUG_sample oid_mismatch_def oid_type_name_def oid_defs)


section \<open>Typed access to a column\<close>

lemmas get_defs = get_bool_def get_int16_def get_int32_def get_int64_def get_float_def
  get_double_def get_date_def get_timestamptz_def get_timestamp_def get_timetz_def
  get_time_def get_interval_def

lemma read_column_mismatch:
  assumes "\<not> ndebug" and "res \<noteq> None" and "PQftype res column \<noteq> oid"
  shows "read_column ndebug rd res oid column defVal = Inl (oid_mismatch (PQftype res column))"
  using assms by (auto simp add: read_column_def assert_oid_def)

lemma read_column_null:
  assumes "ndebug \<or> res \<noteq> None \<and> PQftype res column = oid" and "PQgetisnull res column"
  shows "read_column ndebug rd res oid column defVal = Inr defVal"
  using assms by (auto simp add: read_column_def assert_oid_def)

lemma Row_get_mismatch:
  assumes nd: "\<not> NDEBUG b" and res: "pgresult st \<noteq> None"
    and oid: "oid_of T = Some oid" and ne: "PQftype (pgresult st) column \<noteq> oid"
  shows "Row_get b T st column = Inl (oid_mismatch (PQftype (pgresult st) column))"
proof (cases T)
  case T_bytea
  with assms show ?thesis
    by (auto simp add: Row_get_def oid_of_def get_bytea_def assert_oid_def)
qed (use assms in \<open>simp_all add: Row_get_def oid_of_def get_defs read_column_mismatch\<close>)

lemma get_string_value:
  assumes "field0 (pgresult st) column = Some (Some v)"
  shows "get_string b st column = Inr v"
proof -
  from assms have "pgresult st \<noteq> None"
    by (auto simp add: field0_def split: option.splits)
  with assms show ?thesis
    by (auto simp add: get_string_def PQgetisnull_field0 PQgetvalue_field0 PQgetlength_field0)
qed

lemma isNull_True:
  "isNull b st column = Inr True \<longleftrightarrow>
     (NDEBUG b \<or> pgresult st \<noteq> None) \<and> PQgetisnull (pgresult st) column"
  by (auto simp add: isNull_def)

lemma PQgetvalue_null:
  "PQgetisnull res column \<Longrightarrow> PQgetvalue res column = None \<or> PQgetvalue res column = Some []"
  by (auto simp add: PQgetisnull_def PQgetvalue_def split: option.splits)

lemma Row_get_null:
  assumes null: "isNull b st column = Inr True"
    and tag: "NDEBUG b \<or> oid_of T = None \<or> oid_of T = Some (PQftype (pgresult st) column)"
  shows "Row_get b T st column = Inr (default_of T)"
proof -
  from null have res: "NDEBUG b \<or> pgresult st \<noteq> None"
    and n: "PQgetisnull (pgresult st) column"
    by (simp_all add: isNull_True)
  show ?thesis
  proof (cases T)
    case T_string
    with res n show ?thesis
      by (auto simp add: Row_get_def default_of_def get_string_def)
  next
    case T_char
    with res n show ?thesis
      by (auto simp add: Row_get_def default_of_def get_char_def)
  next
    case T_bytea
    with res n tag PQgetvalue_null [OF n] show ?thesis
      by (auto simp add: Row_get_def default_of_def oid_of_def get_bytea_def assert_oid_def)
  qed (use res n tag in \<open>auto simp add: Row_get_def default_of_def oid_of_def get_defs
        read_column_null\<close>)
qed

lemma asArray_null:
  assumes "isNull b st column = Inr True"
  shows "asArray_bool b st column = Inr [] \<and> asArray_int16 b st column = Inr [] \<and>
    asArray_int32 b st column = Inr []"
  using assms
  by (simp add: isNull_True asArray_bool_def asArray_int16_def asArray_int32_def
      readArray_def)

text \<open>
  C1, as the claim states it, fails: \<^verbatim>\<open>Row::get<std::string>\<close> compares no tag. Asked for
  column 0 of the sample tuple, an \<^verbatim>\<open>int4\<close> holding 42, the default build hands back the
  four bytes of the integer as a string.
\<close>

theorem string_of_int4_column:
  "PQftype (pgresult sample_row) 0 = INT4OID \<and> \<not> NDEBUG debug_build \<and>
   Row_get debug_build T_string sample_row 0 = Inr (V_string [0, 0, 0, 42])"
  by (simp add: PQftype_sample NDEBUG_sample Row_get_def get_string_value field0_sample)

text \<open>
  C1, amended. In the default build (\<^verbatim>\<open>NDEBUG\<close> not defined), with a result attached:
  \<^verbatim>\<open>Row::get<T>\<close> for \<^verbatim>\<open>bool\<close>, the three integers, \<^verbatim>\<open>float\<close>, \<^verbatim>\<open>double\<close>, the byte vector and
  the six temporal types compares the tag libpq reports for the column with the tag of
  \<open>T\<close> before the null test and before any byte is decoded, and on a mismatch stops on
  the failed assertion of \<^verbatim>\<open>assert_oid\<close>, whose message is looked up from the column's
  tag. \<^verbatim>\<open>Row::asArray<T>\<close> makes the comparison on the element tag in the header of a
  non-null array value. \<^verbatim>\<open>Row::get<std::string>\<close> makes none: it returns the bytes of
  any non-null column.
\<close>

theorem tag_checked_before_decoding:
  assumes "\<not> NDEBUG b"
  shows
    "(pgresult st \<noteq> None \<and> oid_of T = Some oid \<and> PQftype (pgresult st) column \<noteq> oid
      \<longrightarrow> Row_get b T st column = Inl (oid_mismatch (PQftype (pgresult st) column))) \<and>
     (field0 (pgresult st) column = Some (Some (wire_header ndim ign elemType @ rest))
      \<longrightarrow> (sint elemType \<noteq> BOOLOID
             \<longrightarrow> asArray_bool b st column = Inl (oid_mismatch (sint elemType))) \<and>
          (sint elemType \<noteq> INT2OID
             \<longrightarrow> asArray_int16 b st column = Inl (oid_mismatch (sint elemType))) \<and>
          (sint elemType \<noteq> INT4OID
             \<longrightarrow> asArray_int32 b st column = Inl (oid_mismatch (sint elemType)))) \<and>
     (field0 (pgresult st) column = Some (Some v)
      \<longrightarrow> Row_get b T_string st column = Inr (V_string v))"
proof (intro conjI impI; (elim conjE)?)
  assume "pgresult st \<noteq> None" "oid_of T = Some oid" "PQftype (pgresult st) column \<noteq> oid"
  with assms show "Row_get b T st column = Inl (oid_mismatch (PQftype (pgresult st) column))"
    by (rule Row_get_mismatch)
next
  assume "field0 (pgresult st) column = Some (Some v)"
  then show "Row_get b T_string st column = Inr (V_string v)"
    by (simp add: Row_get_def get_string_value)
next
  assume header: "field0 (pgresult st) column
      = Some (Some (wire_header ndim ign elemType @ rest))"
  {
    assume "sint elemType \<noteq> BOOLOID"
    with assms header
    show "asArray_bool b st column = Inl (oid_mismatch (sint elemType))"
      unfolding asArray_bool_def by (rule readArray_mismatch)
  next
    assume "sint elemType \<noteq> INT2OID"
    with assms header
    show "asArray_int16 b st column = Inl (oid_mismatch (sint elemType))"
      unfolding asArray_int16_def by (rule readArray_mismatch)
  next
    assume "sint elemType \<noteq> INT4OID"
    with assms header
    show "asArray_int32 b st column = Inl (oid_mismatch (sint elemType))"
      unfolding asArray_int32_def by (rule readArray_mismatch)
  }
qed

theorem tag_checked_before_decoding_witness:
  "Row_get debug_build T_int64 sample_row 0
     = Inl (UnexpectedType ''Unexpected C++ type. Please use get<int32_t>(int column)'') \<and>
   asArray_int16 debug_build sample_row 5
     = Inl (UnexpectedType ''Unexpected C++ type. Please use get<int32_t>(int column)'') \<and>
   Row_get debug_build T_string sample_row 0 = Inr (V_string [0, 0, 0, 42])"
  using
    tag_checked_before_decoding [where b = debug_build and st = sample_row and column = 0
      and T = T_int64 and oid = INT8OID and v = "[0, 0, 0, 42]", THEN conjunct1]
    tag_checked_before_decoding [where b = debug_build and st = sample_row and column = 5
      and ndim = 2 and ign = 0 and elemType = "word_of_int INT4OID" and rest = "[]",
      THEN conjunct2, THEN conjunct1]
    tag_checked_before_decoding [where b = debug_build and st = sample_row and column = 0
      and v = "[0, 0, 0, 42]", THEN conjunct2, THEN conjunct2]
  by (simp add: NDEBUG_sample pgresult_sample PQftype_sample [unfolded pgresult_sample]
      field0_sample [unfolded pgresult_sample] oid_of_def oid_mismatch_def oid_type_name_def
      oid_defs)

text \<open>
  C2, as the claim states it, fails: the tag comparison comes before the null test.
  Column 1 of the sample tuple is a null \<^verbatim>\<open>text\<close>; in the default build \<^verbatim>\<open>get<int32_t>\<close> on
  it stops on the assertion of \<^verbatim>\<open>assert_oid\<close> and returns no 0.
\<close>

theorem null_text_as_int32:
  "isNull debug_build sample_row 1 = Inr True \<and>
   Row_get debug_build T_int32 sample_row 1
     = Inl (UnexpectedType ''Unexpected C++ type. Please use get<std::string>(int column)'')"
  by (simp add: isNull_def Row_get_def get_int32_def read_column_def assert_oid_def
      PQgetisnull_def pgresult_sample PQftype_sample [unfolded pgresult_sample]
      field0_sample [unfolded pgresult_sample] oid_mismatch_def oid_type_name_def oid_defs
      NDEBUG_sample)

text \<open>
  C2, amended. When \<^verbatim>\<open>isNull(c)\<close> holds, \<^verbatim>\<open>Row::get<T>(c)\<close> returns the default of \<open>T\<close> and
  decodes nothing, provided the tag comparison passes: \<^verbatim>\<open>NDEBUG\<close> is defined, or \<open>T\<close> is
  \<^verbatim>\<open>std::string\<close> or \<^verbatim>\<open>char\<close> (which compare no tag), or the column's tag is the tag of \<open>T\<close>.
  The three \<^verbatim>\<open>asArray\<close> accessors return the empty vector on a null column in any case.
\<close>

theorem null_yields_default:
  assumes "isNull b st column = Inr True"
  shows
    "(NDEBUG b \<or> oid_of T = None \<or> oid_of T = Some (PQftype (pgresult st) column)
      \<longrightarrow> Row_get b T st column = Inr (default_of T)) \<and>
     asArray_bool b st column = Inr [] \<and>
     asArray_int16 b st column = Inr [] \<and>
     asArray_int32 b st column = Inr []"
  using Row_get_null [OF assms] asArray_null [OF assms] by blast

theorem null_yields_default_witness:
  "Row_get debug_build T_int64 sample_row 6 = Inr (V_int64 0) \<and>
   Row_get debug_build T_string sample_row 1 = Inr (V_string []) \<and>
   Row_get release_build T_int32 sample_row 1 = Inr (V_int32 0) \<and>
   asArray_int32 debug_build sample_row 6 = Inr []"
  using
    null_yields_default [where b = debug_build and st = sample_row and column = 6
      and T = T_int64]
    null_yields_default [where b = debug_build and st = sample_row and column = 1
      and T = T_string]
    null_yields_default [where b = release_build and st = sample_row and column = 1
      and T = T_int32]
  by (simp add: isNull_def PQgetisnull_def pgresult_sample NDEBUG_sample
      PQftype_sample [unfolded pgresult_sample] field0_sample [unfolded pgresult_sample]
      oid_of_def default_of_def)

section \<open>Fetching\<close>

lemma PQgetResult_error:
  assumes "pending c = Some e # rest" and "is_error e"
  shows "PQgetResult c = (Some e, c\<lparr>pending := rest, lastError := resultErrorMessage e\<rparr>)"
  using assms by (auto simp add: PQgetResult_def is_error_def)

lemma PQgetResult_other:
  assumes "pending c = Some r # rest" and "\<not> is_error r"
  shows "PQgetResult c = (Some r, c\<lparr>pending := rest\<rparr>)"
  using assms by (auto simp add: PQgetResult_def is_error_def)

lemma PQgetResult_end:
  assumes "pending c = None # rest"
  shows "PQgetResult c = (None, c\<lparr>pending := rest\<rparr>)"
  using assms by (simp add: PQgetResult_def)

lemma PQgetResult_lastError:
  assumes "PQgetResult c0 = (Some r, c)" and "is_error r"
  shows "lastError c = resultErrorMessage r"
  using assms
  by (auto simp add: PQgetResult_def is_error_def split: list.splits option.splits)

lemma Result_next_error:
  assumes g: "PQgetResult (conn st) = (Some r, c)" and e: "is_error r"
    and pre: "pgresult st = None \<or> status st = PGRES_SINGLE_TUPLE \<or> NDEBUG b"
  shows "Result_next b st
    = Inl (ExecutionException (lastError c),
           st\<lparr>conn := c, pgresult := Some r, status := resultStatus r\<rparr>)"
  using e pre by (auto simp add: Result_next_def g PQresultStatus_def is_error_def)

lemma Result_first_error:
  assumes g: "PQgetResult (conn st) = (Some r, c)" and e: "is_error r"
    and pre: "pgresult st = None \<or> NDEBUG b"
  shows "Result_first b st
    = Inl (ExecutionException (lastError c),
           st\<lparr>num := 0, conn := c, pgresult := Some r, status := resultStatus r\<rparr>)"
proof -
  from pre have "Result_first b st = Result_next b (st\<lparr>num := 0\<rparr>)"
    by (auto simp add: Result_first_def)
  also have "\<dots> = Inl (ExecutionException (lastError c),
      st\<lparr>num := 0, conn := c, pgresult := Some r, status := resultStatus r\<rparr>)"
    using g e pre by (intro Result_next_error) auto
  finally show ?thesis .
qed

lemma Result_next_exception:
  assumes "Result_next b st = Inl (ExecutionException m, st')"
  shows "status st' \<noteq> PGRES_SINGLE_TUPLE \<and> num st' = num st"
proof -
  obtain res c where g: "PQgetResult (conn st) = (res, c)"
    by (cases "PQgetResult (conn st)")
  from assms show ?thesis
    by (auto simp add: Result_next_def g Let_def split: if_splits ExecStatusType.splits)
qed

lemma Result_next_return:
  assumes "Result_next b st = Inr st'"
  shows "status st' = PGRES_SINGLE_TUPLE \<and> num st' = num st + 1 \<or>
    status st' \<noteq> PGRES_SINGLE_TUPLE \<and> num st' = num st"
proof -
  obtain res c where g: "PQgetResult (conn st) = (res, c)"
    by (cases "PQgetResult (conn st)")
  from assms show ?thesis
    by (auto simp add: Result_next_def g Let_def split: if_splits ExecStatusType.splits)
qed

text \<open>
  C9. \<^verbatim>\<open>first()\<close> and \<^verbatim>\<open>next()\<close> fetch once their entry assertion has passed (for
  \<^verbatim>\<open>next()\<close>: no result held, or the stream on a tuple, or \<^verbatim>\<open>NDEBUG\<close>; for \<^verbatim>\<open>first()\<close>: no result
  held, or \<^verbatim>\<open>NDEBUG\<close>). When the message fetched is a fatal error or a bad response, the
  call throws \<^verbatim>\<open>ExecutionException\<close> with the text \<^verbatim>\<open>lastError()\<close> gives after the fetch,
  which is the diagnostic of that message; the stream then holds the error message, its
  status is the error status, and the row counter is not advanced (\<^verbatim>\<open>first()\<close> has set
  it to 0). And whenever \<^verbatim>\<open>next()\<close> throws \<^verbatim>\<open>ExecutionException\<close>, from any stream, the
  stream it leaves is not on a tuple and its row counter is unchanged: an error never
  comes with a row. When \<^verbatim>\<open>next()\<close> returns, the stream is on a tuple and the counter
  has advanced by one, or the stream is on no tuple and the counter has not moved.
\<close>

theorem fetch_error_raises:
  assumes "PQgetResult (conn st) = (Some r, c)" and "is_error r"
  shows
    "lastError c = resultErrorMessage r \<and>
     (pgresult st = None \<or> status st = PGRES_SINGLE_TUPLE \<or> NDEBUG b
      \<longrightarrow> Result_next b st
            = Inl (ExecutionException (lastError c),
                   st\<lparr>conn := c, pgresult := Some r, status := resultStatus r\<rparr>)) \<and>
     (pgresult st = None \<or> NDEBUG b
      \<longrightarrow> Result_first b st
            = Inl (ExecutionException (lastError c),
                   st\<lparr>num := 0, conn := c, pgresult := Some r,
                      status := resultStatus r\<rparr>)) \<and>
     (\<forall>s m s'. Result_next b s = Inl (ExecutionException m, s')
        \<longrightarrow> status s' \<noteq> PGRES_SINGLE_TUPLE \<and> num s' = num s) \<and>
     (\<forall>s s'. Result_next b s = Inr s'
        \<longrightarrow> status s' = PGRES_SINGLE_TUPLE \<and> num s' = num s + 1 \<or>
            status s' \<noteq> PGRES_SINGLE_TUPLE \<and> num s' = num s)"
proof -
  have diag: "lastError c = resultErrorMessage r"
    by (rule PQgetResult_lastError [OF assms])
  have on_next: "pgresult st = None \<or> status st = PGRES_SINGLE_TUPLE \<or> NDEBUG b
      \<longrightarrow> Result_next b st
            = Inl (ExecutionException (lastError c),
                   st\<lparr>conn := c, pgresult := Some r, status := resultStatus r\<rparr>)"
    using Result_next_error [OF assms] by blast
  have on_first: "pgresult st = None \<or> NDEBUG b
      \<longrightarrow> Result_first b st
            = Inl (ExecutionException (lastError c),
                   st\<lparr>num := 0, conn := c, pgresult := Some r,
                      status := resultStatus r\<rparr>)"
    using Result_first_error [OF assms] by blast
  have thrown: "\<forall>s m s'. Result_next b s = Inl (ExecutionException m, s')
        \<longrightarrow> status s' \<noteq> PGRES_SINGLE_TUPLE \<and> num s' = num s"
    using Result_next_exception by blast
  have returned: "\<forall>s s'. Result_next b s = Inr s'
        \<longrightarrow> status s' = PGRES_SINGLE_TUPLE \<and> num s' = num s + 1 \<or>
            status s' \<noteq> PGRES_SINGLE_TUPLE \<and> num s' = num s"
    using Result_next_return by blast
  from diag on_next on_first thrown returned show ?thesis
    by (intro conjI)
qed

theorem fetch_error_raises_witness:
  "Result_first debug_build
       (new_Result \<lparr>pending = [Some fatal_error, None], lastError = []\<rparr> 7)
     = Inl (ExecutionException ''ERROR:  division by zero'',
            \<lparr>conn = \<lparr>pending = [None], lastError = ''ERROR:  division by zero''\<rparr>,
             pgresult = Some fatal_error, status = PGRES_FATAL_ERROR, num = 0\<rparr>) \<and>
   Result_next debug_build
       (sample_row\<lparr>conn := \<lparr>pending = [Some fatal_error, None], lastError = []\<rparr>\<rparr>)
     = Inl (ExecutionException ''ERROR:  division by zero'',
            \<lparr>conn = \<lparr>pending = [None], lastError = ''ERROR:  division by zero''\<rparr>,
             pgresult = Some fatal_error, status = PGRES_FATAL_ERROR, num = 1\<rparr>)"
  using
    fetch_error_raises [where b = debug_build and r = fatal_error
      and st = "new_Result \<lparr>pending = [Some fatal_error, None], lastError = []\<rparr> 7"
      and c = "\<lparr>pending = [None], lastError = ''ERROR:  division by zero''\<rparr>"]
    fetch_error_raises [where b = debug_build and r = fatal_error
      and st = "sample_row\<lparr>conn := \<lparr>pending = [Some fatal_error, None], lastError = []\<rparr>\<rparr>"
      and c = "\<lparr>pending = [None], lastError = ''ERROR:  division by zero''\<rparr>"]
  by (simp add: PQgetResult_def is_error_def fatal_error_def new_Result_def sample_row_def)

section \<open>The end of the rows\<close>

lemma Result_next_exhausted:
  assumes "pgresult st = Some r" and "status st = PGRES_TUPLES_OK" and "\<not> NDEBUG b"
  shows "Result_next b st = Inl (AssertFailed ''status_ == PGRES_SINGLE_TUPLE'', st)"
  using assms by (simp add: Result_next_def)

lemma Result_next_no_message:
  assumes "NDEBUG b" and "fst (PQgetResult (conn st)) = None"
  shows "Result_next b st
     = Inl (ExecutionException (lastError (snd (PQgetResult (conn st)))),
            st\<lparr>conn := snd (PQgetResult (conn st)), pgresult := None,
               status := PGRES_FATAL_ERROR\<rparr>)"
  using assms
  by (cases "PQgetResult (conn st)") (simp add: Result_next_def PQresultStatus_def)

text \<open>
  C7, as the claim states it, fails. The stream on the only row of the sample query
  reaches the end of the rows with one \<^verbatim>\<open>next()\<close>; a second \<^verbatim>\<open>next()\<close> fails the assertion
  \<^verbatim>\<open>status_ == PGRES_SINGLE_TUPLE\<close> in the default build, and with \<^verbatim>\<open>NDEBUG\<close> it fetches the
  null pointer that ends the request, takes the status of a null result, which is
  \<^verbatim>\<open>PGRES_FATAL_ERROR\<close>, and throws; the stream it leaves is not the exhausted one.
\<close>

theorem advance_after_exhaustion:
  "Result_next debug_build sample_row = Inr exhausted \<and>
   Result_next debug_build exhausted
     = Inl (AssertFailed ''status_ == PGRES_SINGLE_TUPLE'', exhausted) \<and>
   Result_next release_build exhausted
     = Inl (ExecutionException [],
            \<lparr>conn = idle, pgresult = None, status = PGRES_FATAL_ERROR, num = 1\<rparr>)"
  by (simp add: Result_next_def sample_row_def exhausted_def debug_build_def release_build_def
      PQgetResult_def PQresultStatus_def PQntuples_def end_of_rows_def idle_def)

text \<open>
  C7, amended. Once the stream holds the zero-row \<^verbatim>\<open>PGRES_TUPLES_OK\<close> message, a further
  \<^verbatim>\<open>next()\<close> or \<^verbatim>\<open>++\<close> is outside the contract of \<^verbatim>\<open>next()\<close>: in the default build it fails the
  assertion \<^verbatim>\<open>status_ == PGRES_SINGLE_TUPLE\<close> before anything is fetched, the stream
  untouched. With \<^verbatim>\<open>NDEBUG\<close> it fetches again, and when the connection has no message
  left it throws \<^verbatim>\<open>ExecutionException\<close> and leaves the stream without a result, in status
  \<^verbatim>\<open>PGRES_FATAL_ERROR\<close>.
\<close>

theorem exhausted_advance_asserts:
  assumes "pgresult st = Some r" and "status st = PGRES_TUPLES_OK"
  shows
    "(\<not> NDEBUG b
      \<longrightarrow> Result_next b st = Inl (AssertFailed ''status_ == PGRES_SINGLE_TUPLE'', st) \<and>
          iterator_incr b it st = Inl (AssertFailed ''status_ == PGRES_SINGLE_TUPLE'', st)) \<and>
     (NDEBUG b \<and> fst (PQgetResult (conn st)) = None
      \<longrightarrow> Result_next b st
            = Inl (ExecutionException (lastError (snd (PQgetResult (conn st)))),
                   st\<lparr>conn := snd (PQgetResult (conn st)), pgresult := None,
                      status := PGRES_FATAL_ERROR\<rparr>))"
  using Result_next_exhausted [OF assms, of b] Result_next_no_message [of b st]
  by (simp add: iterator_incr_def)

theorem exhausted_advance_asserts_witness:
  "Result_next debug_build exhausted
     = Inl (AssertFailed ''status_ == PGRES_SINGLE_TUPLE'', exhausted) \<and>
   iterator_incr debug_build (Iterator end_row) exhausted
     = Inl (AssertFailed ''status_ == PGRES_SINGLE_TUPLE'', exhausted) \<and>
   Result_next release_build exhausted
     = Inl (ExecutionException [],
            \<lparr>conn = idle, pgresult = None, status = PGRES_FATAL_ERROR, num = 1\<rparr>)"
  using
    exhausted_advance_asserts [where b = debug_build and st = exhausted
      and r = end_of_rows and it = "Iterator end_row"]
    exhausted_advance_asserts [where b = release_build and st = exhausted
      and r = end_of_rows and it = "Iterator end_row"]
  by (simp add: exhausted_def NDEBUG_sample PQgetResult_def idle_def)

text \<open>
  C10. When the status of the stream is not \<^verbatim>\<open>PGRES_SINGLE_TUPLE\<close>, \<^verbatim>\<open>end()\<close> is the iterator
  \<^verbatim>\<open>begin()\<close> is, and the range-based \<^verbatim>\<open>for\<close> over the result runs its body on no row and
  leaves the stream as it found it.
\<close>

theorem end_is_begin:
  assumes "status st \<noteq> PGRES_SINGLE_TUPLE"
  shows "Result_end st = Result_begin st \<and> range_for b st = ([], Inr st)"
  using assms
  by (simp add: Result_end_def Result_begin_def range_for_def range_loop.simps)

theorem end_is_begin_witness:
  "Result_end exhausted = Result_begin exhausted \<and>
   range_for debug_build exhausted = ([], Inr exhausted) \<and>
   Result_end (new_Result idle 0) = Result_begin (new_Result idle 0) \<and>
   range_for debug_build (new_Result idle 0) = ([], Inr (new_Result idle 0))"
  using end_is_begin [where st = exhausted and b = debug_build]
    end_is_begin [where st = "new_Result idle 0" and b = debug_build]
  by (simp add: exhausted_def new_Result_def)

text \<open>On a tuple the two iterators differ, and the loop visits the row.\<close>

lemma range_for_sample:
  "Result_end sample_row \<noteq> Result_begin sample_row \<and>
   range_for debug_build sample_row = ([1], Inr exhausted)"
  by (simp add: range_for_def range_loop.simps Result_begin_def Result_end_def
      iterator_incr_def Result_next_def sample_row_def exhausted_def debug_build_def
      PQgetResult_def PQresultStatus_def PQntuples_def end_of_rows_def)

section \<open>Clearing\<close>

lemma clear_loop_error:
  assumes "pending (conn st) = map Some oks @ Some e # rest"
    and "list_all (\<lambda>r. \<not> is_error r \<and> resultStatus r \<noteq> PGRES_EMPTY_QUERY) oks"
    and "is_error e"
  shows "clear_loop st
    = Inl (ExecutionException (resultErrorMessage e),
           st\<lparr>conn := (conn st)\<lparr>pending := rest, lastError := resultErrorMessage e\<rparr>,
              pgresult := Some e, status := resultStatus e\<rparr>)"
  using assms
proof (induction oks arbitrary: st)
  case Nil
  then have p: "pending (conn st) = Some e # rest"
    by simp
  show ?case
    by (subst clear_loop.simps)
      (use Nil in \<open>auto simp add: PQgetResult_error [OF p] is_error_def\<close>)
next
  case (Cons r oks)
  then have p: "pending (conn st) = Some r # (map Some oks @ Some e # rest)"
    and r: "\<not> is_error r" "resultStatus r \<noteq> PGRES_EMPTY_QUERY"
    by simp_all
  let ?st = "st\<lparr>conn := (conn st)\<lparr>pending := map Some oks @ Some e # rest\<rparr>,
      pgresult := Some r, status := resultStatus r\<rparr>"
  have "clear_loop st = clear_loop ?st"
    by (subst clear_loop.simps)
      (use r in \<open>auto simp add: PQgetResult_other [OF p r(1)] is_error_def\<close>)
  also have "\<dots> = Inl (ExecutionException (resultErrorMessage e),
           ?st\<lparr>conn := (conn ?st)\<lparr>pending := rest, lastError := resultErrorMessage e\<rparr>,
              pgresult := Some e, status := resultStatus e\<rparr>)"
    using Cons.prems by (intro Cons.IH) simp_all
  finally show ?case
    by simp
qed

lemma clear_loop_drains:
  assumes "pending (conn st) = map Some oks @ None # rest"
    and "list_all (\<lambda>r. \<not> is_error r \<and> resultStatus r \<noteq> PGRES_EMPTY_QUERY) oks"
  shows "clear_loop st
    = Inr (st\<lparr>conn := (conn st)\<lparr>pending := rest\<rparr>, pgresult := None,
              status := PGRES_EMPTY_QUERY\<rparr>)"
  using assms
proof (induction oks arbitrary: st)
  case Nil
  then have p: "pending (conn st) = None # rest"
    by simp
  show ?case
    by (subst clear_loop.simps) (simp add: PQgetResult_end [OF p])
next
  case (Cons r oks)
  then have p: "pending (conn st) = Some r # (map Some oks @ None # rest)"
    and r: "\<not> is_error r" "resultStatus r \<noteq> PGRES_EMPTY_QUERY"
    by simp_all
  let ?st = "st\<lparr>conn := (conn st)\<lparr>pending := map Some oks @ None # rest\<rparr>,
      pgresult := Some r, status := resultStatus r\<rparr>"
  have "clear_loop st = clear_loop ?st"
    by (subst clear_loop.simps)
      (use r in \<open>auto simp add: PQgetResult_other [OF p r(1)] is_error_def\<close>)
  also have "\<dots> = Inr (?st\<lparr>conn := (conn ?st)\<lparr>pending := rest\<rparr>, pgresult := None,
              status := PGRES_EMPTY_QUERY\<rparr>)"
    using Cons.prems by (intro Cons.IH) simp_all
  finally show ?case
    by simp
qed

lemma clear_loop_idle:
  assumes "pending (conn st) = map Some oks"
    and "list_all (\<lambda>r. \<not> is_error r \<and> resultStatus r \<noteq> PGRES_EMPTY_QUERY) oks"
  shows "clear_loop st
    = Inr (st\<lparr>conn := (conn st)\<lparr>pending := []\<rparr>, pgresult := None,
              status := PGRES_EMPTY_QUERY\<rparr>)"
  using assms
proof (induction oks arbitrary: st)
  case Nil
  then have "PQgetResult (conn st) = (None, conn st)" "(conn st)\<lparr>pending := []\<rparr> = conn st"
    by (simp_all add: PQgetResult_def)
  then show ?case
    by (subst clear_loop.simps) simp
next
  case (Cons r oks)
  then have p: "pending (conn st) = Some r # map Some oks"
    and r: "\<not> is_error r" "resultStatus r \<noteq> PGRES_EMPTY_QUERY"
    by simp_all
  let ?st = "st\<lparr>conn := (conn st)\<lparr>pending := map Some oks\<rparr>,
      pgresult := Some r, status := resultStatus r\<rparr>"
  have "clear_loop st = clear_loop ?st"
    by (subst clear_loop.simps)
      (use r in \<open>auto simp add: PQgetResult_other [OF p r(1)] is_error_def\<close>)
  also have "\<dots> = Inr (?st\<lparr>conn := (conn ?st)\<lparr>pending := []\<rparr>, pgresult := None,
              status := PGRES_EMPTY_QUERY\<rparr>)"
    using Cons.prems by (intro Cons.IH) simp_all
  finally show ?case
    by simp
qed

lemma clear_loop_empty_query:
  assumes "pending (conn st) = map Some oks @ Some q # rest"
    and "list_all (\<lambda>r. \<not> is_error r \<and> resultStatus r \<noteq> PGRES_EMPTY_QUERY) oks"
    and "resultStatus q = PGRES_EMPTY_QUERY"
  shows "clear_loop st
    = Inr (st\<lparr>conn := (conn st)\<lparr>pending := rest\<rparr>, pgresult := Some q,
              status := PGRES_EMPTY_QUERY\<rparr>)"
  using assms
proof (induction oks arbitrary: st)
  case Nil
  then have p: "pending (conn st) = Some q # rest" and q: "\<not> is_error q"
    by (simp_all add: is_error_def)
  show ?case
    by (subst clear_loop.simps)
      (use Nil in \<open>simp add: PQgetResult_other [OF p q]\<close>)
next
  case (Cons r oks)
  then have p: "pending (conn st) = Some r # (map Some oks @ Some q # rest)"
    and r: "\<not> is_error r" "resultStatus r \<noteq> PGRES_EMPTY_QUERY"
    by simp_all
  let ?st = "st\<lparr>conn := (conn st)\<lparr>pending := map Some oks @ Some q # rest\<rparr>,
      pgresult := Some r, status := resultStatus r\<rparr>"
  have "clear_loop st = clear_loop ?st"
    by (subst clear_loop.simps)
      (use r in \<open>auto simp add: PQgetResult_other [OF p r(1)] is_error_def\<close>)
  also have "\<dots> = Inr (?st\<lparr>conn := (conn ?st)\<lparr>pending := rest\<rparr>, pgresult := Some q,
              status := PGRES_EMPTY_QUERY\<rparr>)"
    using Cons.prems by (intro Cons.IH) simp_all
  finally show ?case
    by simp
qed

text \<open>The abandoned stream: \<^verbatim>\<open>clear()\<close> calls \<^verbatim>\<open>next()\<close>, whose exception goes through.\<close>

lemma clear_abandoned_error:
  assumes "status st = PGRES_SINGLE_TUPLE" and p: "pending (conn st) = Some e # rest"
    and e: "is_error e"
  shows "Result_clear b cancel st
    = Inl (ExecutionException (resultErrorMessage e),
           st\<lparr>conn := (conn st)\<lparr>pending := rest, lastError := resultErrorMessage e\<rparr>,
              pgresult := Some e, status := resultStatus e\<rparr>)"
  using assms(1)
  by (simp add: Result_clear_def Result_next_error [OF PQgetResult_error [OF p e] e])

lemma clear_abandoned_end:
  assumes s: "status st = PGRES_SINGLE_TUPLE" and p: "pending (conn st) = Some r # later"
    and r: "resultStatus r = PGRES_TUPLES_OK" "tuples r = []"
  shows "Result_clear b cancel st
    = (case PQgetResult ((conn st)\<lparr>pending := later\<rparr>) of
         (m, c) \<Rightarrow>
           if m \<noteq> None \<and> \<not> NDEBUG b
           then Inl (AssertFailed ''pgresult_ == nullptr'',
                     st\<lparr>conn := c, pgresult := m, status := PGRES_EMPTY_QUERY\<rparr>)
           else Inr (st\<lparr>conn := c, pgresult := m, status := PGRES_EMPTY_QUERY\<rparr>))"
proof -
  from r have "\<not> is_error r"
    by (simp add: is_error_def)
  from PQgetResult_other [OF p this]
  have "Result_next b st
      = Inr (st\<lparr>conn := (conn st)\<lparr>pending := later\<rparr>, pgresult := Some r,
                status := PGRES_TUPLES_OK\<rparr>)"
    using s r by (simp add: Result_next_def PQresultStatus_def PQntuples_def)
  then show ?thesis
    using s by (simp add: Result_clear_def split: prod.splits)
qed

text \<open>
  The stream at the end of its rows or on an error: \<^verbatim>\<open>clear()\<close> makes one fetch and throws
  nothing. The next \<^verbatim>\<open>clear()\<close> after an error thrown from a drain is this one: the null
  pointer answers its fetch, and the drain is finished then, not by the call that threw.
\<close>

lemma clear_single_fetch:
  assumes "status st = PGRES_TUPLES_OK \<or> status st = PGRES_FATAL_ERROR
      \<or> status st = PGRES_BAD_RESPONSE"
  shows "Result_clear b cancel st
    = (case PQgetResult (conn st) of
         (m, c) \<Rightarrow>
           if m \<noteq> None \<and> \<not> NDEBUG b
           then Inl (AssertFailed ''pgresult_ == nullptr'', st\<lparr>conn := c, pgresult := m\<rparr>)
           else Inr (st\<lparr>conn := c, pgresult := m, status := PGRES_EMPTY_QUERY\<rparr>))"
  using assms by (auto simp add: Result_clear_def clear_last_def)

lemma clear_after_error:
  assumes "status st = PGRES_FATAL_ERROR \<or> status st = PGRES_BAD_RESPONSE"
    and "pending (conn st) = None # rest"
  shows "Result_clear b cancel st
    = Inr (st\<lparr>conn := (conn st)\<lparr>pending := rest\<rparr>, pgresult := None,
              status := PGRES_EMPTY_QUERY\<rparr>)"
  using assms(1)
  by (auto simp add: Result_clear_def clear_last_def PQgetResult_end [OF assms(2)])

text \<open>
  C3, as the claim states it, fails. After the first of three statements, with a
  command completion, the error of the second statement and the end of the request
  pending, \<^verbatim>\<open>clear()\<close> discards the completion, throws at the error and fetches no more:
  the null pointer that ends the request is still pending when it has thrown.
\<close>

theorem clear_stops_at_error:
  "Result_clear debug_build id after_command
     = Inl (ExecutionException ''ERROR:  division by zero'',
            \<lparr>conn = \<lparr>pending = [None], lastError = ''ERROR:  division by zero''\<rparr>,
             pgresult = Some fatal_error, status = PGRES_FATAL_ERROR, num = 0\<rparr>)"
  by (simp add: Result_clear_def after_command_def clear_loop.simps PQgetResult_def
      command_ok_def fatal_error_def)

text \<open>
  C3, amended. \<^verbatim>\<open>clear()\<close> never fetches past an error it throws.

  In status \<^verbatim>\<open>PGRES_COMMAND_OK\<close> it fetches and discards the pending messages that are
  neither errors nor of status \<^verbatim>\<open>PGRES_EMPTY_QUERY\<close>, until the null pointer is returned
  (also by a connection with nothing pending; the stream is then empty), or a message
  of status \<^verbatim>\<open>PGRES_EMPTY_QUERY\<close> comes (the stream then holds it), or a fatal error or bad
  response comes: it throws \<^verbatim>\<open>ExecutionException\<close> for that first error at once, the stream
  keeps the error message and its status, and every later message is still pending.

  On an abandoned stream (status \<^verbatim>\<open>PGRES_SINGLE_TUPLE\<close>) it calls \<^verbatim>\<open>next()\<close>: if the message
  fetched is a fatal error or a bad response, the exception of \<^verbatim>\<open>next()\<close> goes through in
  the same way; if it is the zero-row end of the rows, \<^verbatim>\<open>clear()\<close> makes one more fetch.

  In status \<^verbatim>\<open>PGRES_TUPLES_OK\<close>, \<^verbatim>\<open>PGRES_FATAL_ERROR\<close> or \<^verbatim>\<open>PGRES_BAD_RESPONSE\<close> it makes exactly
  one fetch.

  That one last fetch, in the two cases that have it, is asserted to give the null
  pointer. Whatever else it gives, an error included, is never thrown: it fails
  \<^verbatim>\<open>assert(pgresult_ == nullptr)\<close> in the default build, and with \<^verbatim>\<open>NDEBUG\<close> it is kept
  in the stream without a word, the status set to \<^verbatim>\<open>PGRES_EMPTY_QUERY\<close>.
\<close>

theorem clear_until_end_or_error:
  assumes "list_all (\<lambda>r. \<not> is_error r \<and> resultStatus r \<noteq> PGRES_EMPTY_QUERY) oks"
  shows
    "(status st = PGRES_COMMAND_OK \<and> pending (conn st) = map Some oks @ None # rest
      \<longrightarrow> Result_clear b cancel st
            = Inr (st\<lparr>conn := (conn st)\<lparr>pending := rest\<rparr>, pgresult := None,
                      status := PGRES_EMPTY_QUERY\<rparr>)) \<and>
     (status st = PGRES_COMMAND_OK \<and> pending (conn st) = map Some oks
      \<longrightarrow> Result_clear b cancel st
            = Inr (st\<lparr>conn := (conn st)\<lparr>pending := []\<rparr>, pgresult := None,
                      status := PGRES_EMPTY_QUERY\<rparr>)) \<and>
     (status st = PGRES_COMMAND_OK \<and> pending (conn st) = map Some oks @ Some q # rest \<and>
      resultStatus q = PGRES_EMPTY_QUERY
      \<longrightarrow> Result_clear b cancel st
            = Inr (st\<lparr>conn := (conn st)\<lparr>pending := rest\<rparr>, pgresult := Some q,
                      status := PGRES_EMPTY_QUERY\<rparr>)) \<and>
     (status st = PGRES_COMMAND_OK \<and> pending (conn st) = map Some oks @ Some e # rest \<and>
      is_error e
      \<longrightarrow> Result_clear b cancel st
            = Inl (ExecutionException (resultErrorMessage e),
                   st\<lparr>conn := (conn st)\<lparr>pending := rest,
                                        lastError := resultErrorMessage e\<rparr>,
                      pgresult := Some e, status := resultStatus e\<rparr>)) \<and>
     (status st = PGRES_SINGLE_TUPLE \<and> pending (conn st) = Some e # rest \<and> is_error e
      \<longrightarrow> Result_clear b cancel st
            = Inl (ExecutionException (resultErrorMessage e),
                   st\<lparr>conn := (conn st)\<lparr>pending := rest,
                                        lastError := resultErrorMessage e\<rparr>,
                      pgresult := Some e, status := resultStatus e\<rparr>)) \<and>
     (status st = PGRES_SINGLE_TUPLE \<and> pending (conn st) = Some r # later \<and>
      resultStatus r = PGRES_TUPLES_OK \<and> tuples r = []
      \<longrightarrow> Result_clear b cancel st
            = (case PQgetResult ((conn st)\<lparr>pending := later\<rparr>) of
                 (m, c) \<Rightarrow>
                   if m \<noteq> None \<and> \<not> NDEBUG b
                   then Inl (AssertFailed ''pgresult_ == nullptr'',
                             st\<lparr>conn := c, pgresult := m, status := PGRES_EMPTY_QUERY\<rparr>)
                   else Inr (st\<lparr>conn := c, pgresult := m,
                                status := PGRES_EMPTY_QUERY\<rparr>)) \<and>
          (\<forall>msg s. Result_clear b cancel st \<noteq> Inl (ExecutionException msg, s))) \<and>
     (status st = PGRES_TUPLES_OK \<or> status st = PGRES_FATAL_ERROR \<or>
      status st = PGRES_BAD_RESPONSE
      \<longrightarrow> Result_clear b cancel st
            = (case PQgetResult (conn st) of
                 (m, c) \<Rightarrow>
                   if m \<noteq> None \<and> \<not> NDEBUG b
                   then Inl (AssertFailed ''pgresult_ == nullptr'',
                             st\<lparr>conn := c, pgresult := m\<rparr>)
                   else Inr (st\<lparr>conn := c, pgresult := m,
                                status := PGRES_EMPTY_QUERY\<rparr>)) \<and>
          (\<forall>msg s. Result_clear b cancel st \<noteq> Inl (ExecutionException msg, s)))"
proof -
  have loop: "status st = PGRES_COMMAND_OK \<Longrightarrow> Result_clear b cancel st = clear_loop st"
    by (simp add: Result_clear_def)
  have ended: "status st = PGRES_COMMAND_OK \<and> pending (conn st) = map Some oks @ None # rest
      \<longrightarrow> Result_clear b cancel st
            = Inr (st\<lparr>conn := (conn st)\<lparr>pending := rest\<rparr>, pgresult := None,
                      status := PGRES_EMPTY_QUERY\<rparr>)"
    using assms by (simp add: loop clear_loop_drains)
  have idle: "status st = PGRES_COMMAND_OK \<and> pending (conn st) = map Some oks
      \<longrightarrow> Result_clear b cancel st
            = Inr (st\<lparr>conn := (conn st)\<lparr>pending := []\<rparr>, pgresult := None,
                      status := PGRES_EMPTY_QUERY\<rparr>)"
    using assms by (simp add: loop clear_loop_idle)
  have empty: "status st = PGRES_COMMAND_OK \<and>
      pending (conn st) = map Some oks @ Some q # rest \<and> resultStatus q = PGRES_EMPTY_QUERY
      \<longrightarrow> Result_clear b cancel st
            = Inr (st\<lparr>conn := (conn st)\<lparr>pending := rest\<rparr>, pgresult := Some q,
                      status := PGRES_EMPTY_QUERY\<rparr>)"
    using assms by (simp add: loop clear_loop_empty_query)
  have thrown: "status st = PGRES_COMMAND_OK \<and>
      pending (conn st) = map Some oks @ Some e # rest \<and> is_error e
      \<longrightarrow> Result_clear b cancel st
            = Inl (ExecutionException (resultErrorMessage e),
                   st\<lparr>conn := (conn st)\<lparr>pending := rest,
                                        lastError := resultErrorMessage e\<rparr>,
                      pgresult := Some e, status := resultStatus e\<rparr>)"
    using assms by (simp add: loop clear_loop_error)
  have abandoned: "status st = PGRES_SINGLE_TUPLE \<and> pending (conn st) = Some e # rest \<and>
      is_error e
      \<longrightarrow> Result_clear b cancel st
            = Inl (ExecutionException (resultErrorMessage e),
                   st\<lparr>conn := (conn st)\<lparr>pending := rest,
                                        lastError := resultErrorMessage e\<rparr>,
                      pgresult := Some e, status := resultStatus e\<rparr>)"
    by (simp add: clear_abandoned_error)
  have after_rows: "status st = PGRES_SINGLE_TUPLE \<and> pending (conn st) = Some r # later \<and>
      resultStatus r = PGRES_TUPLES_OK \<and> tuples r = []
      \<longrightarrow> Result_clear b cancel st
            = (case PQgetResult ((conn st)\<lparr>pending := later\<rparr>) of
                 (m, c) \<Rightarrow>
                   if m \<noteq> None \<and> \<not> NDEBUG b
                   then Inl (AssertFailed ''pgresult_ == nullptr'',
                             st\<lparr>conn := c, pgresult := m, status := PGRES_EMPTY_QUERY\<rparr>)
                   else Inr (st\<lparr>conn := c, pgresult := m,
                                status := PGRES_EMPTY_QUERY\<rparr>)) \<and>
          (\<forall>msg s. Result_clear b cancel st \<noteq> Inl (ExecutionException msg, s))"
    by (auto simp add: clear_abandoned_end split: prod.splits)
  have last: "status st = PGRES_TUPLES_OK \<or> status st = PGRES_FATAL_ERROR \<or>
      status st = PGRES_BAD_RESPONSE
      \<longrightarrow> Result_clear b cancel st
            = (case PQgetResult (conn st) of
                 (m, c) \<Rightarrow>
                   if m \<noteq> None \<and> \<not> NDEBUG b
                   then Inl (AssertFailed ''pgresult_ == nullptr'',
                             st\<lparr>conn := c, pgresult := m\<rparr>)
                   else Inr (st\<lparr>conn := c, pgresult := m,
                                status := PGRES_EMPTY_QUERY\<rparr>)) \<and>
          (\<forall>msg s. Result_clear b cancel st \<noteq> Inl (ExecutionException msg, s))"
    by (auto simp add: clear_single_fetch split: prod.splits)
  from ended idle empty thrown abandoned after_rows last show ?thesis
    by (intro conjI)
qed

theorem clear_until_end_or_error_witness:
  "Result_clear debug_build id after_command
     = Inl (ExecutionException ''ERROR:  division by zero'',
            after_command
              \<lparr>conn := \<lparr>pending = [None], lastError = ''ERROR:  division by zero''\<rparr>,
               pgresult := Some fatal_error, status := PGRES_FATAL_ERROR\<rparr>) \<and>
   Result_clear debug_build id
       (after_command\<lparr>conn := \<lparr>pending = [Some command_ok, None], lastError = []\<rparr>\<rparr>)
     = Inr (after_command
              \<lparr>conn := idle, pgresult := None, status := PGRES_EMPTY_QUERY\<rparr>) \<and>
   Result_clear debug_build id
       (after_command\<lparr>conn := \<lparr>pending = [Some command_ok], lastError = []\<rparr>\<rparr>)
     = Inr (after_command
              \<lparr>conn := idle, pgresult := None, status := PGRES_EMPTY_QUERY\<rparr>) \<and>
   Result_clear debug_build id
       (after_command
          \<lparr>conn := \<lparr>pending = [Some (command_ok\<lparr>resultStatus := PGRES_EMPTY_QUERY\<rparr>), None],
                    lastError = []\<rparr>\<rparr>)
     = Inr (after_command
              \<lparr>conn := \<lparr>pending = [None], lastError = []\<rparr>,
               pgresult := Some (command_ok\<lparr>resultStatus := PGRES_EMPTY_QUERY\<rparr>),
               status := PGRES_EMPTY_QUERY\<rparr>) \<and>
   Result_clear debug_build id
       (sample_row\<lparr>conn := \<lparr>pending = [Some fatal_error, None], lastError = []\<rparr>\<rparr>)
     = Inl (ExecutionException ''ERROR:  division by zero'',
            sample_row
              \<lparr>conn := \<lparr>pending = [None], lastError = ''ERROR:  division by zero''\<rparr>,
               pgresult := Some fatal_error, status := PGRES_FATAL_ERROR\<rparr>) \<and>
   Result_clear debug_build id
       (sample_row
          \<lparr>conn := \<lparr>pending = [Some end_of_rows, Some fatal_error, None], lastError = []\<rparr>\<rparr>)
     = Inl (AssertFailed ''pgresult_ == nullptr'',
            sample_row
              \<lparr>conn := \<lparr>pending = [None], lastError = ''ERROR:  division by zero''\<rparr>,
               pgresult := Some fatal_error, status := PGRES_EMPTY_QUERY\<rparr>) \<and>
   Result_clear release_build id
       (sample_row
          \<lparr>conn := \<lparr>pending = [Some end_of_rows, Some fatal_error, None], lastError = []\<rparr>\<rparr>)
     = Inr (sample_row
              \<lparr>conn := \<lparr>pending = [None], lastError = ''ERROR:  division by zero''\<rparr>,
               pgresult := Some fatal_error, status := PGRES_EMPTY_QUERY\<rparr>) \<and>
   Result_clear debug_build id
       (exhausted\<lparr>conn := \<lparr>pending = [Some fatal_error, None], lastError = []\<rparr>\<rparr>)
     = Inl (AssertFailed ''pgresult_ == nullptr'',
            exhausted
              \<lparr>conn := \<lparr>pending = [None], lastError = ''ERROR:  division by zero''\<rparr>,
               pgresult := Some fatal_error\<rparr>) \<and>
   Result_clear release_build id
       (exhausted\<lparr>conn := \<lparr>pending = [Some fatal_error, None], lastError = []\<rparr>\<rparr>)
     = Inr (exhausted
              \<lparr>conn := \<lparr>pending = [None], lastError = ''ERROR:  division by zero''\<rparr>,
               pgresult := Some fatal_error, status := PGRES_EMPTY_QUERY\<rparr>)"
  using
    clear_until_end_or_error [where b = debug_build and cancel = id and st = after_command
      and oks = "[command_ok]" and e = fatal_error and rest = "[None]",
      THEN conjunct2, THEN conjunct2, THEN conjunct2, THEN conjunct1]
    clear_until_end_or_error [where b = debug_build and cancel = id
      and st = "after_command\<lparr>conn := \<lparr>pending = [Some command_ok, None],
        lastError = []\<rparr>\<rparr>"
      and oks = "[command_ok]" and rest = "[]", THEN conjunct1]
    clear_until_end_or_error [where b = debug_build and cancel = id
      and st = "after_command\<lparr>conn := \<lparr>pending = [Some command_ok], lastError = []\<rparr>\<rparr>"
      and oks = "[command_ok]", THEN conjunct2, THEN conjunct1]
    clear_until_end_or_error [where b = debug_build and cancel = id
      and st = "after_command
        \<lparr>conn := \<lparr>pending = [Some (command_ok\<lparr>resultStatus := PGRES_EMPTY_QUERY\<rparr>), None],
                  lastError = []\<rparr>\<rparr>"
      and oks = "[]" and q = "command_ok\<lparr>resultStatus := PGRES_EMPTY_QUERY\<rparr>"
      and rest = "[None]", THEN conjunct2, THEN conjunct2, THEN conjunct1]
    clear_until_end_or_error [where b = debug_build and cancel = id
      and st = "sample_row\<lparr>conn := \<lparr>pending = [Some fatal_error, None], lastError = []\<rparr>\<rparr>"
      and oks = "[]" and e = fatal_error and rest = "[None]",
      THEN conjunct2, THEN conjunct2, THEN conjunct2, THEN conjunct2, THEN conjunct1]
    clear_until_end_or_error [where b = debug_build and cancel = id
      and st = "sample_row\<lparr>conn := \<lparr>pending = [Some end_of_rows, Some fatal_error, None],
        lastError = []\<rparr>\<rparr>"
      and oks = "[]" and r = end_of_rows and later = "[Some fatal_error, None]",
      THEN conjunct2, THEN conjunct2, THEN conjunct2, THEN conjunct2, THEN conjunct2,
      THEN conjunct1]
    clear_until_end_or_error [where b = release_build and cancel = id
      and st = "sample_row\<lparr>conn := \<lparr>pending = [Some end_of_rows, Some fatal_error, None],
        lastError = []\<rparr>\<rparr>"
      and oks = "[]" and r = end_of_rows and later = "[Some fatal_error, None]",
      THEN conjunct2, THEN conjunct2, THEN conjunct2, THEN conjunct2, THEN conjunct2,
      THEN conjunct1]
    clear_until_end_or_error [where b = debug_build and cancel = id
      and st = "exhausted\<lparr>conn := \<lparr>pending = [Some fatal_error, None], lastError = []\<rparr>\<rparr>"
      and oks = "[]",
      THEN conjunct2, THEN conjunct2, THEN conjunct2, THEN conjunct2, THEN conjunct2,
      THEN conjunct2]
    clear_until_end_or_error [where b = release_build and cancel = id
      and st = "exhausted\<lparr>conn := \<lparr>pending = [Some fatal_error, None], lastError = []\<rparr>\<rparr>"
      and oks = "[]",
      THEN conjunct2, THEN conjunct2, THEN conjunct2, THEN conjunct2, THEN conjunct2,
      THEN conjunct2]
  by (simp add: after_command_def sample_row_def exhausted_def is_error_def command_ok_def
      fatal_error_def end_of_rows_def idle_def NDEBUG_sample PQgetResult_def)

end
